theory Spec2Isabelle
  imports Complex_Main "HOL-Library.Sublist"
begin

section \<open>Data model\<close>

text \<open>
  The experience-learning pipeline of the backend: the classes \<^verbatim>\<open>EnhancedChat\<close> and
  \<^verbatim>\<open>ExperienceCapture\<close> (in \<^verbatim>\<open>backend/src/services/userIdentity.ts\<close>) and \<^verbatim>\<open>KnowledgeBuilder\<close>
  (in \<^verbatim>\<open>backend/src/services/userMemory.ts\<close>), over the tables of
  \<^verbatim>\<open>backend/src/db/schema.sql\<close>.

  JavaScript numbers are IEEE doubles. Counters and timestamps are whole numbers far
  below \<open>2\<^sup>5\<^sup>3\<close>, on which doubles are exact: they are \<open>int\<close> and \<open>nat\<close> here.
  Sentiments, success rates and ratings are doubles, and are the real numbers they denote;
  every division, product and sum the code computes on them is rounded to the nearest
  double by \<open>binary64\<close> below.
\<close>

subsection \<open>Doubles\<close>

text \<open>
  Rounding to the nearest integer, a tie to the even one.
\<close>

definition round_even :: "real \<Rightarrow> int" where
  "round_even m =
     (let f = \<lfloor>m\<rfloor> in
      if m - of_int f < 1 / 2 then f
      else if m - of_int f > 1 / 2 then f + 1
      else if even f then f else f + 1)"

text \<open>
  The double nearest to a real: with \<open>e\<close> the binary exponent of \<open>x\<close>, the doubles
  around \<open>x\<close> are the multiples of \<open>2\<^sup>e\<^sup>-\<^sup>5\<^sup>2\<close> (a significand of 53 bits), and the
  nearest one is taken, a tie to the even significand. The exponent is not bounded:
  overflow to infinity and subnormal numbers are not modelled; the numbers below lie
  between \<open>2\<^sup>-\<^sup>5\<^sup>3\<close> and the largest count times 5.
\<close>

definition binary64 :: "real \<Rightarrow> real" where
  "binary64 x =
     (if x = 0 then 0
      else (let e = \<lfloor>log 2 \<bar>x\<bar>\<rfloor>;
                ulp = 2 powr of_int (e - 52)
            in of_int (round_even (x / ulp)) * ulp))"

text \<open>
  The logarithm has no code: \<open>binary64\<close> is evaluated by proof (\<open>binary64_at\<close> below),
  not by rewriting with its definition.
\<close>

declare binary64_def [code del]

subsection \<open>Records and tables\<close>

datatype reaction = Amazed | Skeptical | Neutral | Confused | Engaged

datatype role = User | Assistant | System

text \<open>\<^verbatim>\<open>ChatMessage\<close> of \<^verbatim>\<open>src/types/mentalist.ts\<close>.\<close>

record chat_message =
  role :: role
  content :: string
  cm_timestamp :: "int option"

text \<open>\<^verbatim>\<open>ConversationAnalysis\<close>; an optional field that is absent is \<open>None\<close>.\<close>

record analysis =
  a_trickPerformed :: "string option"
  a_userSentiment :: real
  a_keyMoments :: "string list"
  a_mentalistSuccess :: bool
  a_lessonLearned :: "string option"
  a_whatWorked :: "string list"
  a_whatDidntWork :: "string list"
  a_suggestedImprovements :: "string list"

text \<open>
  \<^verbatim>\<open>MentalistExperience\<close>. The rows of the table \<^verbatim>\<open>experiences\<close> have the same columns and
  are values of this record as well; in a stored row \<open>timestamp\<close> is in seconds, in the
  object \<^verbatim>\<open>captureExperience\<close> returns it is in milliseconds.
\<close>

record experience =
  e_id :: string
  mentalistId :: string
  userId :: string
  sessionId :: string
  timestamp :: int
  conversationSummary :: string
  trickPerformed :: string
  userReaction :: reaction
  userSentiment :: real
  whatWorked :: string
  whatDidntWork :: string
  lessonLearned :: string
  messageCount :: nat
  durationSeconds :: int
  e_context :: string

text \<open>
  A row of \<^verbatim>\<open>mentalists\<close>. The display columns (name, title, tagline, avatar, prompt texts,
  specialty, creation time) are left out: no statement of the functions modelled below
  reads or writes them. \<open>successful_tricks\<close> holds a JSON array of strings in the table and
  is the list that \<^verbatim>\<open>JSON.parse\<close> yields.
\<close>

record mentalist_row =
  m_id :: string
  experience_level :: int
  total_performances :: int
  successful_tricks :: "string list"
  learning_enabled :: bool
  last_performance :: "int option"

text \<open>A row of \<^verbatim>\<open>performance_metrics\<close>.\<close>

record metric_row =
  pm_id :: string
  pm_mentalist_id :: string
  trick_name :: string
  total_attempts :: int
  success_count :: int
  success_rate :: real
  average_user_rating :: real
  best_contexts :: string
  common_failures :: string
  refinements :: string
  last_updated :: int

text \<open>A row of \<^verbatim>\<open>chat_sessions\<close>.\<close>

record session_row =
  s_id :: string
  s_user_id :: string
  s_mentalist_id :: string
  start_time :: int
  end_time :: "int option"
  is_active :: bool
  message_count :: int

text \<open>A row of \<^verbatim>\<open>session_messages\<close>.\<close>

record message_row =
  msg_id :: string
  msg_session_id :: string
  msg_role :: string
  msg_content :: string
  msg_timestamp :: int

text \<open>
  The database: each table is the list of its rows in insertion order. \<open>foreign_keys\<close>
  says whether the engine enforces the \<^verbatim>\<open>FOREIGN KEY\<close> clauses of the schema. The engine of
  the repository is Cloudflare D1 (\<^verbatim>\<open>D1Database\<close>, \<^verbatim>\<open>wrangler d1\<close>), which always enforces
  them: the stores the code runs on have \<open>foreign_keys = True\<close>. The flag is kept so that
  each statement shows where it relies on the enforcement.
\<close>

record db =
  mentalists :: "mentalist_row list"
  experiences :: "experience list"
  performance_metrics :: "metric_row list"
  chat_sessions :: "session_row list"
  session_messages :: "message_row list"
  foreign_keys :: bool

text \<open>
  A statement that the engine rejects makes \<^verbatim>\<open>run()\<close> throw; the awaiting method rejects
  with it, and the statements that ran before stay applied. A method is therefore a
  function from the database to a result and the database it leaves behind.
\<close>

datatype error = UniqueViolation | ForeignKeyViolation

type_synonym 'a io = "db \<Rightarrow> (error + 'a) \<times> db"

section \<open>Experience capture (\<^verbatim>\<open>ExperienceCapture\<close>)\<close>

text \<open>\<^verbatim>\<open>mapSentimentToReaction\<close>: the first threshold reached decides.\<close>

definition mapSentimentToReaction :: "real \<Rightarrow> reaction" where
  "mapSentimentToReaction sentiment =
     (if sentiment \<ge> 0.7 then Amazed
      else if sentiment \<ge> 0.3 then Engaged
      else if sentiment \<ge> -0.3 then Neutral
      else if sentiment \<ge> -0.7 then Skeptical
      else Confused)"

text \<open>
  \<^verbatim>\<open>mapReactionToRating\<close>: a lookup in a five-entry table; the fallback \<^verbatim>\<open>|| 3.0\<close> is never
  taken for a value of the reaction type, since every entry is non-zero.
\<close>

fun mapReactionToRating :: "reaction \<Rightarrow> real" where
  "mapReactionToRating Amazed = 5.0"
| "mapReactionToRating Engaged = 4.0"
| "mapReactionToRating Neutral = 3.0"
| "mapReactionToRating Skeptical = 2.0"
| "mapReactionToRating Confused = 1.0"

text \<open>
  \<^verbatim>\<open>calculateExpGain\<close>: base 10, a bonus by reaction, 5 for a lesson (a non-empty string is
  truthy), and up to 10 for the messages beyond the tenth.
\<close>

definition calculateExpGain :: "experience \<Rightarrow> int" where
  "calculateExpGain e =
     (let exp0 = 10;
          exp1 = (if userReaction e = Amazed then exp0 + 20
                  else if userReaction e = Engaged then exp0 + 10
                  else if userReaction e = Neutral then exp0 + 5
                  else exp0);
          exp2 = (if lessonLearned e \<noteq> [] then exp1 + 5 else exp1);
          exp3 = (if messageCount e > 10
                  then exp2 + min (int (messageCount e) - 10) 10 else exp2)
      in exp3)"

text \<open>
  Plumbing for methods: a value, sequencing that stops at the first rejected statement,
  a query (reads only), an update (never rejected) and an insert (rejected on a violated
  constraint, leaving the database as it was).
\<close>

definition io_return :: "'a \<Rightarrow> 'a io" where
  "io_return x d = (Inr x, d)"

definition io_bind :: "'a io \<Rightarrow> ('a \<Rightarrow> 'b io) \<Rightarrow> 'b io" where
  "io_bind m f d = (case m d of (Inl err, d') \<Rightarrow> (Inl err, d') | (Inr x, d') \<Rightarrow> f x d')"

definition query :: "(db \<Rightarrow> 'a) \<Rightarrow> 'a io" where
  "query q d = (Inr (q d), d)"

definition exec :: "(db \<Rightarrow> db) \<Rightarrow> unit io" where
  "exec upd d = (Inr (), upd d)"

definition run_insert :: "(db \<Rightarrow> error + db) \<Rightarrow> unit io" where
  "run_insert ins d = (case ins d of Inl err \<Rightarrow> (Inl err, d) | Inr d' \<Rightarrow> (Inr (), d'))"

text \<open>Whether a row of \<^verbatim>\<open>mentalists\<close> with this id exists (the target of four foreign keys).\<close>

definition mentalist_exists :: "string \<Rightarrow> db \<Rightarrow> bool" where
  "mentalist_exists mid d = (mid \<in> set (map m_id (mentalists d)))"

subsection \<open>Helpers of \<^verbatim>\<open>captureExperience\<close>\<close>

text \<open>\<^verbatim>\<open>Array.prototype.join\<close>.\<close>

fun join :: "string \<Rightarrow> string list \<Rightarrow> string" where
  "join sep [] = []"
| "join sep [x] = x"
| "join sep (x # y # ys) = x @ sep @ join sep (y # ys)"

text \<open>A natural number in decimal, as a template literal prints it.\<close>

fun show_nat :: "nat \<Rightarrow> string" where
  "show_nat n =
     (if n < 10 then [''0123456789'' ! n]
      else show_nat (n div 10) @ [''0123456789'' ! (n mod 10)])"

declare show_nat.simps [simp del]

text \<open>\<^verbatim>\<open>summarizeConversation\<close>.\<close>

definition summarizeConversation :: "chat_message list \<Rightarrow> string" where
  "summarizeConversation messages =
     (let userMessages = filter (\<lambda>m. role m = User) messages;
          assistantMessages = filter (\<lambda>m. role m = Assistant) messages
      in show_nat (length userMessages) @ '' user messages, '' @
         show_nat (length assistantMessages) @ '' responses. '' @
         ''Duration: '' @ show_nat (length messages) @ '' total exchanges.'')"

text \<open>
  \<^verbatim>\<open>generateId\<close>: \<open>rnd\<close> stands for the text \<^verbatim>\<open>${Date.now()}_${Math.random()...}\<close>, which the
  model takes as an input.
\<close>

definition generateId :: "string \<Rightarrow> string" where
  "generateId rnd = ''exp_'' @ rnd"

text \<open>\<^verbatim>\<open>x || dflt\<close> on an optional string: absent and empty strings are falsy.\<close>

definition or_default :: "string option \<Rightarrow> string \<Rightarrow> string" where
  "or_default x dflt = (case x of None \<Rightarrow> dflt | Some s \<Rightarrow> if s = [] then dflt else s)"

subsection \<open>Statements on \<^verbatim>\<open>experiences\<close>, \<^verbatim>\<open>mentalists\<close> and \<^verbatim>\<open>performance_metrics\<close>\<close>

text \<open>
  \<^verbatim>\<open>INSERT INTO experiences\<close>: rejected when the primary key is taken or, with foreign keys
  enforced, when the mentalist does not exist.
\<close>

definition insert_experience :: "experience \<Rightarrow> db \<Rightarrow> error + db" where
  "insert_experience e d =
     (if e_id e \<in> set (map e_id (experiences d)) then Inl UniqueViolation
      else if foreign_keys d \<and> \<not> mentalist_exists (mentalistId e) d then Inl ForeignKeyViolation
      else Inr (d\<lparr>experiences := experiences d @ [e]\<rparr>))"

text \<open>
  \<^verbatim>\<open>UPDATE mentalists SET total_performances = total_performances + 1,
  experience_level = experience_level + ?, last_performance = ? WHERE id = ?\<close>
\<close>

definition update_mentalist_counters :: "string \<Rightarrow> int \<Rightarrow> int \<Rightarrow> db \<Rightarrow> db" where
  "update_mentalist_counters mid expGain t d =
     d\<lparr>mentalists :=
         map (\<lambda>m. if m_id m = mid
                   then m\<lparr>total_performances := total_performances m + 1,
                          experience_level := experience_level m + expGain,
                          last_performance := Some t\<rparr>
                   else m)
             (mentalists d)\<rparr>"

text \<open>\<^verbatim>\<open>SELECT ... FROM mentalists WHERE id = ?\<close> with \<^verbatim>\<open>first()\<close>.\<close>

definition select_mentalist :: "string \<Rightarrow> db \<Rightarrow> mentalist_row option" where
  "select_mentalist mid d = find (\<lambda>m. m_id m = mid) (mentalists d)"

text \<open>\<^verbatim>\<open>UPDATE mentalists SET successful_tricks = ? WHERE id = ?\<close>\<close>

definition update_successful_tricks :: "string \<Rightarrow> string list \<Rightarrow> db \<Rightarrow> db" where
  "update_successful_tricks mid tricks d =
     d\<lparr>mentalists :=
         map (\<lambda>m. if m_id m = mid then m\<lparr>successful_tricks := tricks\<rparr> else m)
             (mentalists d)\<rparr>"

text \<open>
  \<^verbatim>\<open>SELECT * FROM performance_metrics WHERE mentalist_id = ? AND trick_name = ?\<close> with
  \<^verbatim>\<open>first()\<close>.
\<close>

definition select_metric :: "string \<Rightarrow> string \<Rightarrow> db \<Rightarrow> metric_row option" where
  "select_metric mid trick d =
     find (\<lambda>r. pm_mentalist_id r = mid \<and> trick_name r = trick) (performance_metrics d)"

text \<open>\<^verbatim>\<open>UPDATE performance_metrics SET ... WHERE id = ?\<close>\<close>

definition update_metric :: "string \<Rightarrow> int \<Rightarrow> int \<Rightarrow> real \<Rightarrow> real \<Rightarrow> int \<Rightarrow> db \<Rightarrow> db" where
  "update_metric rid newTotal newSuccessCount newSuccessRate newAvgRating t d =
     d\<lparr>performance_metrics :=
         map (\<lambda>r. if pm_id r = rid
                   then r\<lparr>total_attempts := newTotal,
                          success_count := newSuccessCount,
                          success_rate := newSuccessRate,
                          average_user_rating := newAvgRating,
                          last_updated := t\<rparr>
                   else r)
             (performance_metrics d)\<rparr>"

text \<open>
  \<^verbatim>\<open>INSERT INTO performance_metrics\<close>: rejected when the primary key is taken, when a row
  for the pair exists (\<^verbatim>\<open>UNIQUE(mentalist_id, trick_name)\<close>) or, with foreign keys enforced,
  when the mentalist does not exist.
\<close>

definition insert_metric :: "metric_row \<Rightarrow> db \<Rightarrow> error + db" where
  "insert_metric r d =
     (if pm_id r \<in> set (map pm_id (performance_metrics d)) then Inl UniqueViolation
      else if (pm_mentalist_id r, trick_name r) \<in>
              set (map (\<lambda>x. (pm_mentalist_id x, trick_name x)) (performance_metrics d))
           then Inl UniqueViolation
      else if foreign_keys d \<and> \<not> mentalist_exists (pm_mentalist_id r) d
           then Inl ForeignKeyViolation
      else Inr (d\<lparr>performance_metrics := performance_metrics d @ [r]\<rparr>))"

subsection \<open>\<^verbatim>\<open>updateMentalistStats\<close>, \<^verbatim>\<open>updateTrickMetrics\<close>, \<^verbatim>\<open>captureExperience\<close>\<close>

text \<open>The success test of \<^verbatim>\<open>updateMentalistStats\<close> and \<^verbatim>\<open>updateTrickMetrics\<close>.\<close>

definition is_success :: "experience \<Rightarrow> bool" where
  "is_success e = (userReaction e = Amazed \<or> userReaction e = Engaged)"

text \<open>
  Every \<open>now\<close> below is a reading of \<^verbatim>\<open>Date.now()\<close> in milliseconds; the code stores
  \<^verbatim>\<open>Math.floor(Date.now() / 1000)\<close>.
\<close>

definition updateMentalistStats :: "int \<Rightarrow> string \<Rightarrow> experience \<Rightarrow> unit io" where
  "updateMentalistStats now mid experience =
     (let expGain = calculateExpGain experience in
      io_bind (exec (update_mentalist_counters mid expGain (now div 1000))) (\<lambda>_.
        if is_success experience
        then io_bind (query (select_mentalist mid)) (\<lambda>mentalist.
               case mentalist of
                 None \<Rightarrow> io_return ()
               | Some m \<Rightarrow>
                   (let tricks = successful_tricks m @ [trickPerformed experience]
                    in exec (update_successful_tricks mid tricks)))
        else io_return ()))"

text \<open>
  The quotient, the product and the sum are JavaScript's, each rounded to a double; the
  divisor \<open>newTotal\<close> is positive whenever the stored count is not negative. The two
  counts are integers, which JavaScript adds exactly below \<open>2\<^sup>5\<^sup>3\<close>.
\<close>

definition updateTrickMetrics :: "int \<Rightarrow> string \<Rightarrow> experience \<Rightarrow> unit io" where
  "updateTrickMetrics now mid experience =
     (let metricId = mid @ ''_'' @ trickPerformed experience in
      io_bind (query (select_metric mid (trickPerformed experience))) (\<lambda>existing.
        let isSuccess = is_success experience;
            rating = mapReactionToRating (userReaction experience)
        in case existing of
             Some ex \<Rightarrow>
               (let newTotal = total_attempts ex + 1;
                    newSuccessCount = success_count ex + (if isSuccess then 1 else 0);
                    newSuccessRate =
                      binary64 (real_of_int newSuccessCount / real_of_int newTotal);
                    newAvgRating =
                      binary64
                        (binary64 (binary64 (average_user_rating ex
                                               * real_of_int (total_attempts ex)) + rating)
                           / real_of_int newTotal)
                in exec (update_metric (pm_id ex) newTotal newSuccessCount newSuccessRate
                           newAvgRating (now div 1000)))
           | None \<Rightarrow>
               run_insert (insert_metric
                 \<lparr>pm_id = metricId, pm_mentalist_id = mid,
                  trick_name = trickPerformed experience,
                  total_attempts = 1,
                  success_count = (if isSuccess then 1 else 0),
                  success_rate = (if isSuccess then 1.0 else 0.0),
                  average_user_rating = rating,
                  best_contexts = ''[]'', common_failures = ''[]'', refinements = ''[]'',
                  last_updated = now div 1000\<rparr>)))"

text \<open>
  \<^verbatim>\<open>captureExperience\<close>: builds the experience, inserts it, then updates the mentalist's
  statistics and the trick's metrics, three awaited steps in a row. \<open>now\<close>, \<open>now_stats\<close>
  and \<open>now_metrics\<close> are the clock readings of the three steps.
\<close>

definition build_experience ::
  "string \<Rightarrow> int \<Rightarrow> string \<Rightarrow> string \<Rightarrow> string \<Rightarrow> analysis \<Rightarrow> chat_message list \<Rightarrow> int
     \<Rightarrow> experience" where
  "build_experience rnd now mid uid sid a messages duration =
     \<lparr>e_id = generateId rnd,
      mentalistId = mid,
      userId = uid,
      sessionId = sid,
      timestamp = now,
      conversationSummary = summarizeConversation messages,
      trickPerformed = or_default (a_trickPerformed a) ''general_interaction'',
      userReaction = mapSentimentToReaction (a_userSentiment a),
      userSentiment = a_userSentiment a,
      whatWorked = join ''; '' (a_whatWorked a),
      whatDidntWork = join ''; '' (a_whatDidntWork a),
      lessonLearned = or_default (a_lessonLearned a) [],
      messageCount = length messages,
      durationSeconds = duration,
      e_context = join ''; '' (a_keyMoments a)\<rparr>"

definition captureExperience ::
  "string \<Rightarrow> int \<Rightarrow> int \<Rightarrow> int \<Rightarrow> string \<Rightarrow> string \<Rightarrow> string \<Rightarrow> analysis
     \<Rightarrow> chat_message list \<Rightarrow> int \<Rightarrow> experience io" where
  "captureExperience rnd now now_stats now_metrics mid uid sid a messages duration =
     (let experience = build_experience rnd now mid uid sid a messages duration in
      io_bind (run_insert (insert_experience (experience\<lparr>timestamp := now div 1000\<rparr>))) (\<lambda>_.
      io_bind (updateMentalistStats now_stats mid experience) (\<lambda>_.
      io_bind (updateTrickMetrics now_metrics mid experience) (\<lambda>_.
      io_return experience))))"

text \<open>
  A run of metric updates for one mentalist, one after the other, each with its own clock
  reading; it stops at the first update that is rejected.
\<close>

fun updateTrickMetrics_seq :: "string \<Rightarrow> (int \<times> experience) list \<Rightarrow> unit io" where
  "updateTrickMetrics_seq mid [] = io_return ()"
| "updateTrickMetrics_seq mid ((now, e) # rest) =
     io_bind (updateTrickMetrics now mid e) (\<lambda>_. updateTrickMetrics_seq mid rest)"

text \<open>
  Two databases differ only in the \<open>learning_enabled\<close> flags of their mentalists when
  they agree after the flags are overwritten by one fixed value.
\<close>

definition forget_learning :: "db \<Rightarrow> db" where
  "forget_learning d =
     d\<lparr>mentalists := map (\<lambda>m. m\<lparr>learning_enabled := True\<rparr>) (mentalists d)\<rparr>"

text \<open>
  A method is blind to the flags when running it commutes with overwriting them: it gives
  the same result, and leaves databases that again differ in the flags only.
\<close>

definition blind :: "'a io \<Rightarrow> bool" where
  "blind m = (\<forall>d. m (forget_learning d) = (fst (m d), forget_learning (snd (m d))))"

section \<open>Sessions (\<^verbatim>\<open>EnhancedChat\<close>)\<close>

text \<open>
  \<^verbatim>\<open>SELECT id FROM chat_sessions WHERE user_id = ? AND mentalist_id = ? AND is_active = 1
  ORDER BY start_time DESC LIMIT 1\<close> with \<^verbatim>\<open>first()\<close>: an active session of the pair with the
  greatest start time. SQL leaves the choice among equal start times open; the model
  takes the one inserted first.
\<close>

definition select_active_session :: "string \<Rightarrow> string \<Rightarrow> db \<Rightarrow> session_row option" where
  "select_active_session uid mid d =
     (case filter (\<lambda>s. s_user_id s = uid \<and> s_mentalist_id s = mid \<and> is_active s)
             (chat_sessions d) of
        [] \<Rightarrow> None
      | s # ss \<Rightarrow>
          Some (foldl (\<lambda>best x. if start_time x > start_time best then x else best) s ss))"

text \<open>\<^verbatim>\<open>SELECT ... FROM chat_sessions WHERE id = ?\<close> with \<^verbatim>\<open>first()\<close>.\<close>

definition select_session :: "string \<Rightarrow> db \<Rightarrow> session_row option" where
  "select_session sid d = find (\<lambda>s. s_id s = sid) (chat_sessions d)"

text \<open>
  \<^verbatim>\<open>INSERT INTO chat_sessions\<close>: rejected when the primary key is taken or, with foreign
  keys enforced, when the mentalist does not exist.
\<close>

definition insert_session :: "session_row \<Rightarrow> db \<Rightarrow> error + db" where
  "insert_session r d =
     (if s_id r \<in> set (map s_id (chat_sessions d)) then Inl UniqueViolation
      else if foreign_keys d \<and> \<not> mentalist_exists (s_mentalist_id r) d
           then Inl ForeignKeyViolation
      else Inr (d\<lparr>chat_sessions := chat_sessions d @ [r]\<rparr>))"

text \<open>
  \<^verbatim>\<open>getOrCreateSession\<close>; \<open>rnd\<close> stands for the text \<^verbatim>\<open>${Date.now()}_${Math.random()...}\<close> of the
  new session id.
\<close>

definition getOrCreateSession :: "string \<Rightarrow> int \<Rightarrow> string \<Rightarrow> string \<Rightarrow> string io" where
  "getOrCreateSession rnd now uid mid =
     io_bind (query (select_active_session uid mid)) (\<lambda>activeSession.
       case activeSession of
         Some s \<Rightarrow> io_return (s_id s)
       | None \<Rightarrow>
           (let sessionId = ''session_'' @ rnd in
            io_bind (run_insert (insert_session
                       \<lparr>s_id = sessionId, s_user_id = uid, s_mentalist_id = mid,
                        start_time = now div 1000, end_time = None,
                        is_active = True, message_count = 0\<rparr>)) (\<lambda>_.
            io_return sessionId)))"

text \<open>
  \<^verbatim>\<open>INSERT INTO session_messages\<close>: rejected when the primary key is taken or, with foreign
  keys enforced, when the session does not exist.
\<close>

definition insert_message :: "message_row \<Rightarrow> db \<Rightarrow> error + db" where
  "insert_message r d =
     (if msg_id r \<in> set (map msg_id (session_messages d)) then Inl UniqueViolation
      else if foreign_keys d \<and> msg_session_id r \<notin> set (map s_id (chat_sessions d))
           then Inl ForeignKeyViolation
      else Inr (d\<lparr>session_messages := session_messages d @ [r]\<rparr>))"

text \<open>\<^verbatim>\<open>UPDATE chat_sessions SET message_count = message_count + 1 WHERE id = ?\<close>\<close>

definition increment_message_count :: "string \<Rightarrow> db \<Rightarrow> db" where
  "increment_message_count sid d =
     d\<lparr>chat_sessions :=
         map (\<lambda>s. if s_id s = sid then s\<lparr>message_count := message_count s + 1\<rparr> else s)
             (chat_sessions d)\<rparr>"

text \<open>\<^verbatim>\<open>saveMessage\<close>: no look-up of the session precedes the insert.\<close>

definition saveMessage :: "string \<Rightarrow> int \<Rightarrow> string \<Rightarrow> string \<Rightarrow> string \<Rightarrow> unit io" where
  "saveMessage rnd now sid rl msg =
     (let messageId = ''msg_'' @ rnd in
      io_bind (run_insert (insert_message
                 \<lparr>msg_id = messageId, msg_session_id = sid, msg_role = rl,
                  msg_content = msg, msg_timestamp = now div 1000\<rparr>)) (\<lambda>_.
      exec (increment_message_count sid)))"

text \<open>\<^verbatim>\<open>UPDATE chat_sessions SET is_active = 0, end_time = ? WHERE id = ?\<close>\<close>

definition update_session_end :: "int \<Rightarrow> string \<Rightarrow> db \<Rightarrow> db" where
  "update_session_end t sid d =
     d\<lparr>chat_sessions :=
         map (\<lambda>s. if s_id s = sid then s\<lparr>is_active := False, end_time := Some t\<rparr> else s)
             (chat_sessions d)\<rparr>"

text \<open>\<^verbatim>\<open>endSession\<close>: the update carries no condition on the session's state.\<close>

definition endSession :: "int \<Rightarrow> string \<Rightarrow> unit io" where
  "endSession now sid = exec (update_session_end (now div 1000) sid)"

section \<open>Knowledge synthesis (\<^verbatim>\<open>KnowledgeBuilder\<close>)\<close>

text \<open>
  The per-technique statistics \<^verbatim>\<open>analyzeSuccessfulTricks\<close> collects, and the
  \<^verbatim>\<open>TrickPattern\<close> it returns. \<open>successRate\<close> is the text \<^verbatim>\<open>toFixed(1)\<close> gives for the
  percentage; the model holds the number of tenths it denotes (the text \<^verbatim>\<open>66.7\<close> is 667),
  which is what \<^verbatim>\<open>parseFloat\<close> recovers for the comparison.
\<close>

record trick_stats =
  attempts :: nat
  successes :: nat
  contexts :: "string list"
  insights :: "string list"

record trick_pattern =
  name :: string
  successRate :: nat
  bestContexts :: "string list"
  keyInsight :: string
  timesPerformed :: nat

text \<open>
  The body of the \<^verbatim>\<open>forEach\<close>. \<open>trickStats\<close> is the object, as the list of its own
  properties in creation order; a row of \<^verbatim>\<open>experiences\<close> is an \<open>experience\<close>. Technique
  names that every object inherits as property names (\<open>inherited_keys\<close> below) are outside
  the model: for them \<^verbatim>\<open>trickStats[trick]\<close> is never absent.
\<close>

definition record_attempt ::
  "(string \<times> trick_stats) list \<Rightarrow> experience \<Rightarrow> (string \<times> trick_stats) list" where
  "record_attempt trickStats xp =
     (let trick = trickPerformed xp;
          trickStats1 =
            (if map_of trickStats trick = None
             then trickStats @
                    [(trick, \<lparr>attempts = 0, successes = 0, contexts = [], insights = []\<rparr>)]
             else trickStats)
      in map (\<lambda>(k, st).
            if k = trick
            then (k, st\<lparr>attempts := attempts st + 1,
                       successes := (if userReaction xp = Amazed \<or> userReaction xp = Engaged
                                     then successes st + 1 else successes st),
                       contexts := (if e_context xp \<noteq> [] then contexts st @ [e_context xp]
                                    else contexts st),
                       insights := (if lessonLearned xp \<noteq> []
                                    then insights st @ [lessonLearned xp]
                                    else insights st)\<rparr>)
            else (k, st)) trickStats1)"

definition inherited_keys :: "string list" where
  "inherited_keys =
     [''constructor'', ''__defineGetter__'', ''__defineSetter__'', ''hasOwnProperty'',
      ''__lookupGetter__'', ''__lookupSetter__'', ''isPrototypeOf'', ''propertyIsEnumerable'',
      ''toString'', ''valueOf'', ''__proto__'', ''toLocaleString'']"

text \<open>
  \<^verbatim>\<open>Object.entries\<close> lists the keys that are array indices (canonical decimal numbers
  below \<open>2\<^sup>3\<^sup>2 - 1\<close>) first, in ascending numeric order, and then the other keys in
  creation order.
\<close>

definition is_digit :: "char \<Rightarrow> bool" where
  "is_digit c = (48 \<le> (of_char c :: nat) \<and> (of_char c :: nat) \<le> 57)"

definition parse_nat :: "string \<Rightarrow> nat" where
  "parse_nat s = foldl (\<lambda>n c. 10 * n + (of_char c - 48)) 0 s"

definition is_array_index :: "string \<Rightarrow> bool" where
  "is_array_index k =
     (k \<noteq> [] \<and> list_all is_digit k \<and> (k = ''0'' \<or> hd k \<noteq> CHR ''0'') \<and>
      parse_nat k < 4294967295)"

definition object_entries :: "(string \<times> 'a) list \<Rightarrow> (string \<times> 'a) list" where
  "object_entries kvs =
     sort_key (\<lambda>kv. parse_nat (fst kv)) (filter (\<lambda>kv. is_array_index (fst kv)) kvs) @
     filter (\<lambda>kv. \<not> is_array_index (fst kv)) kvs"

text \<open>
  \<^verbatim>\<open>((successes / attempts) * 100).toFixed(1)\<close>, in tenths of a percent. The quotient
  and the product are doubles; \<^verbatim>\<open>toFixed(1)\<close> then takes the integer \<open>n\<close> for which
  \<open>n / 10\<close> is nearest to the exact value of that double, the larger one of two.
\<close>

definition toFixed1 :: "nat \<Rightarrow> nat \<Rightarrow> nat" where
  "toFixed1 s a = nat \<lfloor>10 * binary64 (binary64 (real s / real a) * 100) + 1 / 2\<rfloor>"

text \<open>\<^verbatim>\<open>synthesizeInsights\<close>: the most recent lesson.\<close>

definition synthesizeInsights :: "string list \<Rightarrow> string" where
  "synthesizeInsights lessons =
     (if length lessons = 0 then ''Consistent performance''
      else if length lessons = 1 then lessons ! 0
      else lessons ! (length lessons - 1))"

text \<open>
  \<^verbatim>\<open>analyzeSuccessfulTricks\<close>. \<^verbatim>\<open>Array.prototype.sort\<close> is stable, and the comparison
  \<^verbatim>\<open>parseFloat(b.successRate) - parseFloat(a.successRate)\<close> orders by descending rate: a
  stable sort on the negated rate. \<^verbatim>\<open>extractCommonContexts\<close> mines words from free text
  (lower-casing, splitting at white space); it has no part in which groups are kept or in
  their order, and is a parameter here.
\<close>

definition analyzeSuccessfulTricks ::
  "(string list \<Rightarrow> string list) \<Rightarrow> experience list \<Rightarrow> trick_pattern list" where
  "analyzeSuccessfulTricks extractCommonContexts rows =
     (let trickStats = foldl record_attempt [] rows
      in take 5
           (sort_key (\<lambda>p. - int (successRate p))
              (map (\<lambda>(trick, stats).
                      \<lparr>name = trick,
                       successRate = toFixed1 (successes stats) (attempts stats),
                       bestContexts = extractCommonContexts (contexts stats),
                       keyInsight = synthesizeInsights (insights stats),
                       timesPerformed = attempts stats\<rparr>)
                   (object_entries trickStats))))"

subsection \<open>The same list, described group by group\<close>

text \<open>
  The techniques of a window in the order of their first appearance, the order in which
  an object enumerates them as keys, and the statistics and the pattern of one technique
  computed from the window directly.
\<close>

definition first_seen :: "'a list \<Rightarrow> 'a list" where
  "first_seen xs = rev (remdups (rev xs))"

definition enumeration_order :: "string list \<Rightarrow> string list" where
  "enumeration_order ks =
     sort_key parse_nat (filter is_array_index ks) @ filter (\<lambda>k. \<not> is_array_index k) ks"

definition group_stats :: "experience list \<Rightarrow> string \<Rightarrow> trick_stats" where
  "group_stats rows t =
     (let g = filter (\<lambda>e. trickPerformed e = t) rows in
      \<lparr>attempts = length g,
       successes = length (filter (\<lambda>e. userReaction e = Amazed \<or> userReaction e = Engaged) g),
       contexts = filter (\<lambda>c. c \<noteq> []) (map e_context g),
       insights = filter (\<lambda>l. l \<noteq> []) (map lessonLearned g)\<rparr>)"

definition technique_group ::
  "(string list \<Rightarrow> string list) \<Rightarrow> experience list \<Rightarrow> string \<Rightarrow> trick_pattern" where
  "technique_group extractCommonContexts rows t =
     (let st = group_stats rows t in
      \<lparr>name = t,
       successRate = toFixed1 (successes st) (attempts st),
       bestContexts = extractCommonContexts (contexts st),
       keyInsight = synthesizeInsights (insights st),
       timesPerformed = attempts st\<rparr>)"

section \<open>A worked scenario\<close>

text \<open>
  The end-to-end scenario of the specification: persona \<open>P\<close> starts at level 0 with no
  sessions; sessions of six turns about the technique \<open>card_force\<close> end with a judged
  sentiment. The instances below are evaluated on it.
\<close>

definition persona_P :: mentalist_row where
  "persona_P = \<lparr>m_id = ''P'', experience_level = 0, total_performances = 0,
     successful_tricks = [], learning_enabled = True, last_performance = None\<rparr>"

definition store0 :: db where
  "store0 = \<lparr>mentalists = [persona_P], experiences = [], performance_metrics = [],
     chat_sessions = [], session_messages = [], foreign_keys = True\<rparr>"

definition six_turns :: "chat_message list" where
  "six_turns =
     [\<lparr>role = User, content = ''hello'', cm_timestamp = None\<rparr>,
      \<lparr>role = Assistant, content = ''pick a card'', cm_timestamp = None\<rparr>,
      \<lparr>role = User, content = ''done'', cm_timestamp = None\<rparr>,
      \<lparr>role = Assistant, content = ''the seven of hearts'', cm_timestamp = None\<rparr>,
      \<lparr>role = User, content = ''wow'', cm_timestamp = None\<rparr>,
      \<lparr>role = Assistant, content = ''thank you'', cm_timestamp = None\<rparr>]"

definition judged :: "string \<Rightarrow> real \<Rightarrow> analysis" where
  "judged trick s = \<lparr>a_trickPerformed = Some trick, a_userSentiment = s,
     a_keyMoments = [''the reveal''], a_mentalistSuccess = True,
     a_lessonLearned = Some ''smile more'', a_whatWorked = [''the force''],
     a_whatDidntWork = [], a_suggestedImprovements = []\<rparr>"

definition first_outcome :: experience where
  "first_outcome =
     build_experience ''1'' 1000 ''P'' ''u1'' ''s1'' (judged ''card_force'' 0.8) six_turns 60"

definition second_outcome :: experience where
  "second_outcome =
     build_experience ''2'' 9000 ''P'' ''u1'' ''s2'' (judged ''card_force'' (-0.5)) six_turns 60"

definition after_first :: db where
  "after_first = snd (captureExperience ''1'' 1000 2000 3000 ''P'' ''u1'' ''s1''
                        (judged ''card_force'' 0.8) six_turns 60 store0)"

definition after_repeat :: db where
  "after_repeat = snd (captureExperience ''2'' 9000 10000 11000 ''P'' ''u1'' ''s2''
                         (judged ''card_force'' 0.8) six_turns 60 after_first)"

text \<open>The same store with learning switched off for \<open>P\<close>.\<close>

definition store0_disabled :: db where
  "store0_disabled = store0\<lparr>mentalists := [persona_P\<lparr>learning_enabled := False\<rparr>]\<rparr>"

text \<open>A store with one session of user \<open>u1\<close> with \<open>P\<close>, started at second 1.\<close>

definition store_session :: db where
  "store_session = snd (getOrCreateSession ''a'' 1000 ''u1'' ''P'' store0)"

text \<open>
  Two mentalists \<open>a\<close> and \<open>a_b\<close>; \<open>a_b\<close> has a metric row for the technique \<open>c\<close>, whose
  id is \<open>a_b_c\<close>.
\<close>

definition store_clash :: db where
  "store_clash =
     \<lparr>mentalists = [persona_P\<lparr>m_id := ''a''\<rparr>, persona_P\<lparr>m_id := ''a_b''\<rparr>],
      experiences = [],
      performance_metrics =
        [\<lparr>pm_id = ''a_b_c'', pm_mentalist_id = ''a_b'', trick_name = ''c'',
          total_attempts = 1, success_count = 1, success_rate = 1, average_user_rating = 5,
          best_contexts = ''[]'', common_failures = ''[]'', refinements = ''[]'',
          last_updated = 1\<rparr>],
      chat_sessions = [], session_messages = [], foreign_keys = True\<rparr>"

text \<open>
  A window of three stored outcomes, most recent first: one amazed session with
  \<open>levitation\<close>, then two with \<open>card_force\<close>.
\<close>

definition stored_outcome :: "string \<Rightarrow> string \<Rightarrow> reaction \<Rightarrow> experience" where
  "stored_outcome rnd trick r =
     \<lparr>e_id = ''exp_'' @ rnd, mentalistId = ''P'', userId = ''u1'', sessionId = ''s'' @ rnd,
      timestamp = 1, conversationSummary = ''3 user messages, 3 responses.'',
      trickPerformed = trick, userReaction = r, userSentiment = 0,
      whatWorked = ''the force'', whatDidntWork = [], lessonLearned = ''smile more'',
      messageCount = 6, durationSeconds = 60, e_context = ''the reveal''\<rparr>"

definition tie_window :: "experience list" where
  "tie_window =
     [stored_outcome ''3'' ''levitation'' Amazed,
      stored_outcome ''2'' ''card_force'' Amazed,
      stored_outcome ''1'' ''card_force'' Engaged]"

section \<open>The reaction bands\<close>



section \<open>Rounding to doubles\<close>

lemma round_even_error: "\<bar>of_int (round_even m) - m\<bar> \<le> 1 / 2"
  unfolding round_even_def Let_def by (auto simp: abs_le_iff)

lemma round_even_of_int: "round_even (of_int k) = k"
  by (simp add: round_even_def)

lemma exponent_bounds:
  assumes "x \<noteq> 0"
  shows "2 powr of_int \<lfloor>log 2 \<bar>x\<bar>\<rfloor> \<le> \<bar>x\<bar>"
  using assms by (simp add: powr_le_iff)

text \<open>The double of a number whose binary exponent is known.\<close>

lemma binary64_at:
  assumes "2 powr of_int e \<le> \<bar>x\<bar>" and "\<bar>x\<bar> < 2 powr of_int (e + 1)"
  shows "binary64 x = of_int (round_even (x / 2 powr of_int (e - 52))) * 2 powr of_int (e - 52)"
proof -
  have pos: "\<bar>x\<bar> > 0" using assms(1) by (smt (verit) powr_gt_zero)
  then have "\<lfloor>log 2 \<bar>x\<bar>\<rfloor> = e"
    using assms by (simp add: floor_log_eq_powr_iff)
  then show ?thesis using pos by (simp add: binary64_def Let_def)
qed

text \<open>Rounding moves a number by at most the relative error \<open>2\<^sup>-\<^sup>5\<^sup>3\<close>.\<close>

lemma binary64_error: "\<bar>binary64 x - x\<bar> \<le> \<bar>x\<bar> / 2 ^ 53"
proof (cases "x = 0")
  case True
  then show ?thesis by (simp add: binary64_def)
next
  case False
  define e where "e = \<lfloor>log 2 \<bar>x\<bar>\<rfloor>"
  define ulp :: real where "ulp = 2 powr of_int (e - 52)"
  have ulp: "ulp > 0" by (simp add: ulp_def)
  have le: "2 powr of_int e \<le> \<bar>x\<bar>" unfolding e_def using False by (rule exponent_bounds)
  have b: "binary64 x = of_int (round_even (x / ulp)) * ulp"
    using False by (simp add: binary64_def Let_def e_def ulp_def)
  have "binary64 x - x = (of_int (round_even (x / ulp)) - x / ulp) * ulp"
    using ulp by (simp add: b field_simps)
  then have "\<bar>binary64 x - x\<bar> = \<bar>of_int (round_even (x / ulp)) - x / ulp\<bar> * ulp"
    using ulp by (simp add: abs_mult)
  also have "\<dots> \<le> (1 / 2) * ulp"
    using round_even_error [of "x / ulp"] ulp by (intro mult_right_mono) simp_all
  also have "\<dots> = 2 powr of_int e / 2 ^ 53"
    by (simp add: ulp_def powr_diff powr_numeral)
  also have "\<dots> \<le> \<bar>x\<bar> / 2 ^ 53"
    using le by (simp add: divide_right_mono)
  finally show ?thesis .
qed

lemma binary64_bounds:
  assumes "y \<ge> 0"
  shows "y * (1 - 1 / 2 ^ 53) \<le> binary64 y" and "binary64 y \<le> y * (1 + 1 / 2 ^ 53)"
proof -
  define u :: real where "u = 1 / 2 ^ 53"
  have "\<bar>binary64 y - y\<bar> \<le> y * u"
    using binary64_error [of y] assms by (simp add: u_def)
  then have "y - y * u \<le> binary64 y" and "binary64 y \<le> y + y * u"
    by (simp_all add: abs_le_iff)
  then show "y * (1 - 1 / 2 ^ 53) \<le> binary64 y" and "binary64 y \<le> y * (1 + 1 / 2 ^ 53)"
    unfolding u_def [symmetric] by (simp_all only: right_diff_distrib distrib_left mult_1_right)
qed

lemma binary64_0: "binary64 0 = 0"
  by (simp add: binary64_def)

lemma binary64_1: "binary64 1 = 1"
  using binary64_at [of 0 1] round_even_of_int [of "2 ^ 52"]
  by (simp add: powr_neg_numeral powr_numeral)

lemma binary64_100: "binary64 100 = 100"
  using binary64_at [of 6 100] round_even_of_int [of "100 * 2 ^ 46"]
  by (simp add: powr_neg_numeral powr_numeral)

lemma binary64_half: "binary64 (1 / 2) = 1 / 2"
  using binary64_at [of "-1" "1 / 2"] round_even_of_int [of "2 ^ 52"]
  by (simp add: powr_neg_numeral powr_numeral)

text \<open>
  One step of the running average, \<^verbatim>\<open>((avg * total) + rating) / newTotal\<close>, with its three
  roundings: when \<open>avg * k\<close> lies within \<open>j\<close> roundings of a sum \<open>A\<close>, the new average
  times \<open>k + 1\<close> lies within \<open>j + 3\<close> roundings of \<open>A + r\<close>.
\<close>

lemma running_mean_step:
  fixes avg A r :: real and k j :: nat
  assumes lo: "A * (1 - 1 / 2 ^ 53) ^ j \<le> avg * real k"
    and hi: "avg * real k \<le> A * (1 + 1 / 2 ^ 53) ^ j"
    and A: "A \<ge> 0" and r: "r \<ge> 0"
    and avg': "avg' = binary64 (binary64 (binary64 (avg * real k) + r) / real (k + 1))"
  shows "(A + r) * (1 - 1 / 2 ^ 53) ^ (j + 3) \<le> avg' * real (k + 1)"
    and "avg' * real (k + 1) \<le> (A + r) * (1 + 1 / 2 ^ 53) ^ (j + 3)"
proof -
  define a :: real where "a = 1 + 1 / 2 ^ 53"
  define b :: real where "b = 1 - 1 / 2 ^ 53"
  have a1: "a \<ge> 1" and b0: "b \<ge> 0" and b1: "b \<le> 1"
    by (simp_all add: a_def b_def)
  have a0: "a \<ge> 0" using a1 by simp
  define S where "S = avg * real k"
  define p where "p = binary64 S"
  define s where "s = binary64 (p + r)"
  define q where "q = binary64 (s / real (k + 1))"
  have S0: "S \<ge> 0"
    using lo A b0 unfolding S_def b_def [symmetric]
    by (meson mult_nonneg_nonneg order_trans zero_le_power)
  have p: "S * b \<le> p" "p \<le> S * a"
    unfolding p_def a_def b_def using binary64_bounds [OF S0] by simp_all
  have p0: "p \<ge> 0" using p(1) S0 b0 by (meson mult_nonneg_nonneg order_trans)
  have pr0: "p + r \<ge> 0" using p0 r by simp
  have s: "(p + r) * b \<le> s" "s \<le> (p + r) * a"
    unfolding s_def a_def b_def using binary64_bounds [OF pr0] by simp_all
  have s0: "s \<ge> 0" using s(1) pr0 b0 by (meson mult_nonneg_nonneg order_trans)
  have d0: "s / real (k + 1) \<ge> 0" using s0 by simp
  have q: "s / real (k + 1) * b \<le> q" "q \<le> s / real (k + 1) * a"
    unfolding q_def a_def b_def using binary64_bounds [OF d0] by simp_all
  define K where "K = real (k + 1)"
  have kp: "K > 0" by (simp add: K_def)
  have qk: "s * b \<le> q * real (k + 1)" "q * real (k + 1) \<le> s * a"
  proof -
    have e1: "s / K * b * K = s * b" and e2: "s / K * a * K = s * a"
      using kp by simp_all
    have "s / K * b * K \<le> q * K"
      using q(1) kp unfolding K_def [symmetric] by (intro mult_right_mono) simp_all
    then have "s * b \<le> q * K" by (simp only: e1)
    then show "s * b \<le> q * real (k + 1)" by (simp only: K_def)
    have "q * K \<le> s / K * a * K"
      using q(2) kp unfolding K_def [symmetric] by (intro mult_right_mono) simp_all
    then have "q * K \<le> s * a" by (simp only: e2)
    then show "q * real (k + 1) \<le> s * a" by (simp only: K_def)
  qed
  have ex: "j + 1 = Suc j" "j + 2 = Suc (Suc j)" "j + 3 = Suc (Suc (Suc j))"
    by simp_all
  have avgq: "avg' = q" by (simp add: avg' q_def s_def p_def S_def)
  have aj: "a ^ (j + 1) \<ge> 1" using a1 by (rule one_le_power)
  have "S * a \<le> A * a ^ j * a"
    using hi a0 unfolding S_def a_def [symmetric] by (intro mult_right_mono) simp_all
  then have u1: "p \<le> A * a ^ (j + 1)" using p(2) by (simp add: mult_ac ex)
  have u2: "r \<le> r * a ^ (j + 1)" using r aj by (simp add: mult_le_cancel_left1)
  have "p + r \<le> (A + r) * a ^ (j + 1)" using u1 u2 by (simp add: distrib_right)
  then have "(p + r) * a \<le> (A + r) * a ^ (j + 1) * a"
    using a0 by (intro mult_right_mono) simp_all
  then have "s \<le> (A + r) * a ^ (j + 2)" using s(2) by (simp add: mult_ac ex)
  then have "s * a \<le> (A + r) * a ^ (j + 2) * a"
    using a0 by (intro mult_right_mono) simp_all
  then have "q * real (k + 1) \<le> (A + r) * a ^ (j + 3)"
    using qk(2) by (simp add: mult_ac ex)
  then show "avg' * real (k + 1) \<le> (A + r) * (1 + 1 / 2 ^ 53) ^ (j + 3)"
    by (simp only: avgq a_def)
  have bj: "b ^ (j + 1) \<le> 1" using b0 b1 by (rule power_le_one)
  have "A * b ^ j * b \<le> S * b"
    using lo b0 unfolding S_def b_def [symmetric] by (intro mult_right_mono) simp_all
  then have l1: "A * b ^ (j + 1) \<le> p" using p(1) by (simp add: mult_ac ex)
  have l2: "r * b ^ (j + 1) \<le> r" using r bj by (simp add: mult_le_cancel_left2)
  have "(A + r) * b ^ (j + 1) \<le> p + r" using l1 l2 by (simp add: distrib_right)
  then have "(A + r) * b ^ (j + 1) * b \<le> (p + r) * b"
    using b0 by (intro mult_right_mono) simp_all
  then have "(A + r) * b ^ (j + 2) \<le> s" using s(1) by (simp add: mult_ac ex)
  then have "(A + r) * b ^ (j + 2) * b \<le> s * b"
    using b0 by (intro mult_right_mono) simp_all
  then have "(A + r) * b ^ (j + 3) \<le> q * real (k + 1)"
    using qk(1) by (simp add: mult_ac ex)
  then show "(A + r) * (1 - 1 / 2 ^ 53) ^ (j + 3) \<le> avg' * real (k + 1)"
    by (simp only: avgq b_def)
qed

lemma lower_deficit_le_upper_excess:
  fixes u :: real
  assumes "0 \<le> u" "u \<le> 1"
  shows "1 - (1 - u) ^ m \<le> (1 + u) ^ m - 1"
proof -
  have "1 + real m * u \<le> (1 + u) ^ m"
    using Bernoulli_inequality [of u m] assms by simp
  moreover have "1 + real m * (- u) \<le> (1 + (- u)) ^ m"
    using assms by (intro Bernoulli_inequality) simp
  ultimately show ?thesis by simp
qed

text \<open>
  \<^verbatim>\<open>toFixed(1)\<close> of a full success rate is \<^verbatim>\<open>100.0\<close>. The rounding is that of the double,
  not of the exact quotient: 23 successes in 80 attempts are 28.75 percent exactly, the
  double computed for them lies just below, and the score is \<^verbatim>\<open>28.7\<close>.
\<close>

lemma toFixed1_all_successes: "a > 0 \<Longrightarrow> toFixed1 a a = 1000"
  by (simp add: toFixed1_def binary64_1 binary64_100)

lemma binary64_23_80: "binary64 (23 / 80) = 5179139571476070 / 2 ^ 54"
  using binary64_at [of "-2" "23 / 80"]
  by (simp add: powr_neg_numeral powr_numeral round_even_def Let_def)

lemma binary64_23_80_percent:
  "binary64 (binary64 (23 / 80) * 100) = 8092405580431359 / 2 ^ 48"
  unfolding binary64_23_80
  using binary64_at [of 4 "5179139571476070 / 2 ^ 54 * 100"]
  by (simp add: powr_neg_numeral powr_numeral round_even_def Let_def)

lemma toFixed1_23_80: "toFixed1 23 80 = 287"
  by (simp add: toFixed1_def binary64_23_80_percent)

section \<open>Updates and look-ups\<close>

lemma find_map_pres:
  assumes "\<And>x. P (g x) = P x"
  shows "find P (map g xs) = map_option g (find P xs)"
  using assms by (induction xs) auto

lemma find_map_same_key:
  assumes "\<And>x. P (g x) = P x"
  shows "find P (map (\<lambda>x. if P x then g x else x) xs) = map_option g (find P xs)"
  using assms by (induction xs) auto

lemma find_map_at_key:
  assumes "find P xs = Some ex" and "\<And>x. P (g x) = P x"
  shows "find P (map (\<lambda>x. if k x = k ex then g x else x) xs) = Some (g ex)"
  using assms by (induction xs) (auto split: if_splits)

lemma find_None_append:
  "find P xs = None \<Longrightarrow> find P (xs @ [x]) = (if P x then Some x else None)"
  by (induction xs) (auto split: if_splits)

lemma find_None_pairs:
  "find (\<lambda>r. f r = a \<and> g r = b) xs = None \<Longrightarrow> (a, b) \<notin> set (map (\<lambda>x. (f x, g x)) xs)"
  by (induction xs) (auto split: if_splits)

lemma select_mentalist_counters:
  "select_mentalist mid (update_mentalist_counters mid g t d) =
     map_option (\<lambda>m. m\<lparr>total_performances := total_performances m + 1,
                        experience_level := experience_level m + g,
                        last_performance := Some t\<rparr>) (select_mentalist mid d)"
  unfolding select_mentalist_def update_mentalist_counters_def
  by (simp add: find_map_same_key [where P = "\<lambda>m. m_id m = mid"])

lemma select_mentalist_tricks:
  "select_mentalist mid (update_successful_tricks mid ts d) =
     map_option (\<lambda>m. m\<lparr>successful_tricks := ts\<rparr>) (select_mentalist mid d)"
  unfolding select_mentalist_def update_successful_tricks_def
  by (simp add: find_map_same_key [where P = "\<lambda>m. m_id m = mid"])

lemma select_mentalist_cong:
  "mentalists d = mentalists d' \<Longrightarrow> select_mentalist mid d = select_mentalist mid d'"
  by (simp add: select_mentalist_def)

lemma select_mentalist_exists:
  "select_mentalist mid d = Some m \<Longrightarrow> mentalist_exists mid d"
  by (auto simp: select_mentalist_def mentalist_exists_def find_Some_iff)

lemma select_metric_update:
  assumes "select_metric mid t d = Some ex"
  shows "select_metric mid t (update_metric (pm_id ex) a b c r tm d) =
         Some (ex\<lparr>total_attempts := a, success_count := b, success_rate := c,
                  average_user_rating := r, last_updated := tm\<rparr>)"
  using assms unfolding select_metric_def update_metric_def
  by (simp add: find_map_at_key [where k = pm_id])

section \<open>The steps of \<^verbatim>\<open>captureExperience\<close>\<close>

lemma updateMentalistStats_ok: "fst (updateMentalistStats now mid e d) = Inr ()"
  by (simp add: updateMentalistStats_def io_bind_def exec_def query_def
      io_return_def Let_def split: option.splits)

lemma select_mentalist_updateMentalistStats:
  "select_mentalist mid (snd (updateMentalistStats now mid e d)) =
     map_option (\<lambda>m. m\<lparr>total_performances := total_performances m + 1,
                        experience_level := experience_level m + calculateExpGain e,
                        last_performance := Some (now div 1000),
                        successful_tricks :=
                          (if is_success e then successful_tricks m @ [trickPerformed e]
                           else successful_tricks m)\<rparr>) (select_mentalist mid d)"
  by (cases "select_mentalist mid d")
     (simp_all add: updateMentalistStats_def io_bind_def exec_def query_def
      io_return_def Let_def select_mentalist_counters select_mentalist_tricks)

lemma unchanged_by_updateMentalistStats:
  "experiences (snd (updateMentalistStats now mid e d)) = experiences d"
  "performance_metrics (snd (updateMentalistStats now mid e d)) = performance_metrics d"
  by (simp_all add: updateMentalistStats_def io_bind_def exec_def query_def io_return_def
      Let_def update_mentalist_counters_def update_successful_tricks_def split: option.splits)

lemma unchanged_by_updateTrickMetrics:
  "mentalists (snd (updateTrickMetrics now mid e d)) = mentalists d"
  "experiences (snd (updateTrickMetrics now mid e d)) = experiences d"
  by (simp_all add: updateTrickMetrics_def io_bind_def exec_def query_def run_insert_def
      update_metric_def insert_metric_def Let_def split: option.splits)

lemma updateTrickMetrics_rejected:
  "fst (updateTrickMetrics now mid e d) = Inl err \<Longrightarrow> snd (updateTrickMetrics now mid e d) = d"
  by (auto simp: updateTrickMetrics_def io_bind_def exec_def query_def run_insert_def
      Let_def split: option.splits sum.splits)

lemma updateTrickMetrics_existing:
  assumes "select_metric mid (trickPerformed e) d = Some ex"
  shows "fst (updateTrickMetrics now mid e d) = Inr ()"
    and "select_metric mid (trickPerformed e) (snd (updateTrickMetrics now mid e d)) =
         Some (ex\<lparr>total_attempts := total_attempts ex + 1,
                  success_count := success_count ex + (if is_success e then 1 else 0),
                  success_rate :=
                    binary64 (real_of_int (success_count ex + (if is_success e then 1 else 0))
                                / real_of_int (total_attempts ex + 1)),
                  average_user_rating :=
                    binary64
                      (binary64 (binary64 (average_user_rating ex
                                             * real_of_int (total_attempts ex))
                                 + mapReactionToRating (userReaction e))
                         / real_of_int (total_attempts ex + 1)),
                  last_updated := now div 1000\<rparr>)"
  using assms
  by (simp_all add: updateTrickMetrics_def io_bind_def query_def exec_def Let_def
      select_metric_update)

lemma updateTrickMetrics_fresh:
  assumes "select_metric mid (trickPerformed e) d = None"
    and "mid @ ''_'' @ trickPerformed e \<notin> set (map pm_id (performance_metrics d))"
    and "foreign_keys d \<Longrightarrow> mentalist_exists mid d"
  shows "fst (updateTrickMetrics now mid e d) = Inr ()"
    and "select_metric mid (trickPerformed e) (snd (updateTrickMetrics now mid e d)) =
         Some \<lparr>pm_id = mid @ ''_'' @ trickPerformed e, pm_mentalist_id = mid,
               trick_name = trickPerformed e, total_attempts = 1,
               success_count = (if is_success e then 1 else 0),
               success_rate = (if is_success e then 1 else 0),
               average_user_rating = mapReactionToRating (userReaction e),
               best_contexts = ''[]'', common_failures = ''[]'', refinements = ''[]'',
               last_updated = now div 1000\<rparr>"
proof -
  have nodup: "(mid, trickPerformed e) \<notin>
     set (map (\<lambda>x. (pm_mentalist_id x, trick_name x)) (performance_metrics d))"
    using assms(1) unfolding select_metric_def by (rule find_None_pairs)
  show "fst (updateTrickMetrics now mid e d) = Inr ()"
    using assms nodup
    by (auto simp: updateTrickMetrics_def io_bind_def query_def run_insert_def Let_def
        insert_metric_def)
  show "select_metric mid (trickPerformed e) (snd (updateTrickMetrics now mid e d)) =
         Some \<lparr>pm_id = mid @ ''_'' @ trickPerformed e, pm_mentalist_id = mid,
               trick_name = trickPerformed e, total_attempts = 1,
               success_count = (if is_success e then 1 else 0),
               success_rate = (if is_success e then 1 else 0),
               average_user_rating = mapReactionToRating (userReaction e),
               best_contexts = ''[]'', common_failures = ''[]'', refinements = ''[]'',
               last_updated = now div 1000\<rparr>"
    using assms nodup
    by (auto simp: updateTrickMetrics_def io_bind_def query_def run_insert_def Let_def
        insert_metric_def select_metric_def find_None_append)
qed

lemma insert_metric_Inr:
  "insert_metric r d = Inr d' \<Longrightarrow> d' = d\<lparr>performance_metrics := performance_metrics d @ [r]\<rparr>"
  by (auto simp: insert_metric_def split: if_splits)

text \<open>The row of the pair after a metric update that went through.\<close>

lemma updateTrickMetrics_result:
  assumes "fst (updateTrickMetrics now mid e d) = Inr ()"
  shows "select_metric mid (trickPerformed e) (snd (updateTrickMetrics now mid e d)) =
     Some (case select_metric mid (trickPerformed e) d of
             Some ex \<Rightarrow>
               ex\<lparr>total_attempts := total_attempts ex + 1,
                  success_count := success_count ex + (if is_success e then 1 else 0),
                  success_rate :=
                    binary64 (real_of_int (success_count ex + (if is_success e then 1 else 0))
                                / real_of_int (total_attempts ex + 1)),
                  average_user_rating :=
                    binary64
                      (binary64 (binary64 (average_user_rating ex
                                             * real_of_int (total_attempts ex))
                                 + mapReactionToRating (userReaction e))
                         / real_of_int (total_attempts ex + 1)),
                  last_updated := now div 1000\<rparr>
           | None \<Rightarrow>
               \<lparr>pm_id = mid @ ''_'' @ trickPerformed e, pm_mentalist_id = mid,
                trick_name = trickPerformed e, total_attempts = 1,
                success_count = (if is_success e then 1 else 0),
                success_rate = (if is_success e then 1 else 0),
                average_user_rating = mapReactionToRating (userReaction e),
                best_contexts = ''[]'', common_failures = ''[]'', refinements = ''[]'',
                last_updated = now div 1000\<rparr>)"
proof (cases "select_metric mid (trickPerformed e) d")
  case None
  define r where "r = \<lparr>pm_id = mid @ ''_'' @ trickPerformed e, pm_mentalist_id = mid,
               trick_name = trickPerformed e, total_attempts = 1,
               success_count = (if is_success e then 1 else 0),
               success_rate = (if is_success e then 1 else 0),
               average_user_rating = mapReactionToRating (userReaction e),
               best_contexts = ''[]'', common_failures = ''[]'', refinements = ''[]'',
               last_updated = now div 1000\<rparr>"
  have run: "updateTrickMetrics now mid e d = run_insert (insert_metric r) d"
    using None by (simp add: updateTrickMetrics_def io_bind_def query_def Let_def r_def)
  show ?thesis
  proof (cases "insert_metric r d")
    case (Inl err)
    then show ?thesis using assms run by (simp add: run_insert_def)
  next
    case (Inr d')
    then have "snd (updateTrickMetrics now mid e d) =
        d\<lparr>performance_metrics := performance_metrics d @ [r]\<rparr>"
      using run insert_metric_Inr [OF Inr] by (simp add: run_insert_def)
    then show ?thesis
      using None by (simp add: select_metric_def find_None_append r_def)
  qed
next
  case (Some ex)
  then show ?thesis using updateTrickMetrics_existing(2) [OF Some, of now] by simp
qed

lemma insert_experience_fresh:
  assumes "e_id e \<notin> set (map e_id (experiences d))"
    and "mentalist_exists (mentalistId e) d"
  shows "insert_experience e d = Inr (d\<lparr>experiences := experiences d @ [e]\<rparr>)"
  using assms by (simp add: insert_experience_def)

lemma insert_experience_Inr:
  "insert_experience e d = Inr d1 \<Longrightarrow> d1 = d\<lparr>experiences := experiences d @ [e]\<rparr>"
  by (auto simp: insert_experience_def split: if_splits)

text \<open>
  What \<^verbatim>\<open>captureExperience\<close> leaves behind once the insert of the experience went
  through, whether or not the metric update is rejected afterwards.
\<close>

lemma captureExperience_after_insert:
  assumes e: "e = build_experience rnd now mid uid sid a msgs dur"
    and ins: "insert_experience (e\<lparr>timestamp := now div 1000\<rparr>) d = Inr d1"
  shows "experiences (snd (captureExperience rnd now ns nm mid uid sid a msgs dur d)) =
           experiences d @ [e\<lparr>timestamp := now div 1000\<rparr>]"
    and "mentalists (snd (captureExperience rnd now ns nm mid uid sid a msgs dur d)) =
           mentalists (snd (updateMentalistStats ns mid e d1))"
    and "captureExperience rnd now ns nm mid uid sid a msgs dur d =
           (case fst (updateTrickMetrics nm mid e (snd (updateMentalistStats ns mid e d1))) of
              Inl err \<Rightarrow> Inl err | Inr _ \<Rightarrow> Inr e,
            snd (updateTrickMetrics nm mid e (snd (updateMentalistStats ns mid e d1))))"
proof -
  obtain r2 d2 where s2: "updateMentalistStats ns mid e d1 = (r2, d2)"
    by (cases "updateMentalistStats ns mid e d1")
  have r2: "r2 = Inr ()" using updateMentalistStats_ok [of ns mid e d1] s2 by simp
  obtain r3 d3 where s3: "updateTrickMetrics nm mid e d2 = (r3, d3)"
    by (cases "updateTrickMetrics nm mid e d2")
  have run: "captureExperience rnd now ns nm mid uid sid a msgs dur d =
      (case r3 of Inl err \<Rightarrow> Inl err | Inr _ \<Rightarrow> Inr e, d3)"
    using ins s2 r2 s3
    by (cases r3) (simp_all add: captureExperience_def Let_def e [symmetric]
        io_bind_def run_insert_def io_return_def)
  show "captureExperience rnd now ns nm mid uid sid a msgs dur d =
           (case fst (updateTrickMetrics nm mid e (snd (updateMentalistStats ns mid e d1))) of
              Inl err \<Rightarrow> Inl err | Inr _ \<Rightarrow> Inr e,
            snd (updateTrickMetrics nm mid e (snd (updateMentalistStats ns mid e d1))))"
    using run s2 s3 by simp
  have m3: "mentalists d3 = mentalists d2" "experiences d3 = experiences d2"
    using unchanged_by_updateTrickMetrics [of nm mid e d2] s3 by simp_all
  have e2: "experiences d2 = experiences d1"
    using unchanged_by_updateMentalistStats(1) [of ns mid e d1] s2 by simp
  show "mentalists (snd (captureExperience rnd now ns nm mid uid sid a msgs dur d)) =
           mentalists (snd (updateMentalistStats ns mid e d1))"
    using run m3 s2 by simp
  show "experiences (snd (captureExperience rnd now ns nm mid uid sid a msgs dur d)) =
           experiences d @ [e\<lparr>timestamp := now div 1000\<rparr>]"
    using run m3 e2 insert_experience_Inr [OF ins] by simp
qed

lemma captureExperience_mentalist:
  assumes "select_mentalist mid d = Some m"
    and "generateId rnd \<notin> set (map e_id (experiences d))"
    and e: "e = build_experience rnd now mid uid sid a msgs dur"
  shows "select_mentalist mid
           (snd (captureExperience rnd now ns nm mid uid sid a msgs dur d)) =
         Some (m\<lparr>total_performances := total_performances m + 1,
                 experience_level := experience_level m + calculateExpGain e,
                 last_performance := Some (ns div 1000),
                 successful_tricks :=
                   (if is_success e then successful_tricks m @ [trickPerformed e]
                    else successful_tricks m)\<rparr>)"
proof -
  define d1 where "d1 = d\<lparr>experiences := experiences d @ [e\<lparr>timestamp := now div 1000\<rparr>]\<rparr>"
  have ids: "e_id e = generateId rnd" "mentalistId e = mid"
    by (simp_all add: e build_experience_def)
  have ins: "insert_experience (e\<lparr>timestamp := now div 1000\<rparr>) d = Inr d1"
    unfolding d1_def using assms(2) select_mentalist_exists [OF assms(1)]
    by (intro insert_experience_fresh) (simp_all add: ids)
  have "select_mentalist mid (snd (captureExperience rnd now ns nm mid uid sid a msgs dur d))
      = select_mentalist mid (snd (updateMentalistStats ns mid e d1))"
    using captureExperience_after_insert(2) [OF e ins] by (rule select_mentalist_cong)
  moreover have "select_mentalist mid d1 = Some m"
    using assms(1) by (simp add: select_mentalist_def d1_def)
  ultimately show ?thesis
    by (simp add: select_mentalist_updateMentalistStats)
qed

lemma calculateExpGain_formula:
  "calculateExpGain e =
     10 + (case userReaction e of Amazed \<Rightarrow> 20 | Engaged \<Rightarrow> 10 | Neutral \<Rightarrow> 5
            | Skeptical \<Rightarrow> 0 | Confused \<Rightarrow> 0)
        + (if lessonLearned e \<noteq> [] then 5 else 0)
        + min (max (int (messageCount e) - 10) 0) 10"
  by (cases "userReaction e") (simp_all add: calculateExpGain_def Let_def)

text \<open>
  C3. For every captured experience of an existing persona, the persona's experience
  level grows by 10 + reactionBonus + (5 if the lesson is non-empty) +
  min(max(turnCount - 10, 0), 10), where reactionBonus is 20 for amazed, 10 for engaged,
  5 for neutral and 0 for skeptical and confused, and its total of performances grows by
  exactly 1. The experience is captured when its generated id is new to the table.
\<close>

theorem captureExperience_exp_gain:
  assumes "select_mentalist mid d = Some m"
    and "generateId rnd \<notin> set (map e_id (experiences d))"
  shows "\<exists>m'. select_mentalist mid
           (snd (captureExperience rnd now ns nm mid uid sid a msgs dur d)) = Some m' \<and>
      experience_level m' - experience_level m =
        10 + (case mapSentimentToReaction (a_userSentiment a) of
                Amazed \<Rightarrow> 20 | Engaged \<Rightarrow> 10 | Neutral \<Rightarrow> 5 | Skeptical \<Rightarrow> 0 | Confused \<Rightarrow> 0)
           + (if or_default (a_lessonLearned a) [] \<noteq> [] then 5 else 0)
           + min (max (int (length msgs) - 10) 0) 10 \<and>
      total_performances m' = total_performances m + 1"
  using captureExperience_mentalist [OF assms refl]
  by (simp add: calculateExpGain_formula) (simp add: build_experience_def)

theorem captureExperience_exp_gain_witness:
  "\<exists>m'. select_mentalist ''P''
           (snd (captureExperience ''1'' 1000 2000 3000 ''P'' ''u1'' ''s1''
                   (judged ''card_force'' 0.8) six_turns 60 store0)) = Some m' \<and>
      experience_level m' = 35 \<and> total_performances m' = 1"
  using captureExperience_exp_gain [of "''P''" store0 persona_P "''1''" 1000 2000 3000
      "''u1''" "''s1''" "judged ''card_force'' 0.8" six_turns 60]
  by (simp add: select_mentalist_def store0_def persona_P_def judged_def six_turns_def
      mapSentimentToReaction_def or_default_def)

text \<open>
  C9, as the code has it. \<open>successful_tricks\<close> is a list that only grows: a capture of an
  existing persona whose reaction is amazed or engaged appends the technique at the end,
  so the list then contains it and every technique it held before; a capture with another
  reaction leaves the list as it was. Nothing removes an entry that is already there: a
  technique that succeeds again is stored again.
\<close>

theorem captureExperience_successful_tricks:
  assumes "select_mentalist mid d = Some m"
    and "generateId rnd \<notin> set (map e_id (experiences d))"
    and "reaction = mapSentimentToReaction (a_userSentiment a)"
    and "technique = or_default (a_trickPerformed a) ''general_interaction''"
  shows "\<exists>m'. select_mentalist mid
           (snd (captureExperience rnd now ns nm mid uid sid a msgs dur d)) = Some m' \<and>
      successful_tricks m' =
        (if reaction = Amazed \<or> reaction = Engaged then successful_tricks m @ [technique]
         else successful_tricks m) \<and>
      set (successful_tricks m) \<subseteq> set (successful_tricks m') \<and>
      (reaction = Amazed \<or> reaction = Engaged \<longrightarrow> technique \<in> set (successful_tricks m'))"
  using captureExperience_mentalist [OF assms(1,2) refl] assms(3,4)
  by (auto simp: is_success_def build_experience_def)

theorem captureExperience_successful_tricks_witness:
  "\<exists>m'. select_mentalist ''P''
           (snd (captureExperience ''1'' 1000 2000 3000 ''P'' ''u1'' ''s1''
                   (judged ''card_force'' 0.8) six_turns 60 store0)) = Some m' \<and>
      successful_tricks m' = [''card_force'']"
proof -
  have h1: "select_mentalist ''P'' store0 = Some persona_P"
    by (simp add: select_mentalist_def store0_def persona_P_def)
  have h2: "generateId ''1'' \<notin> set (map e_id (experiences store0))"
    by (simp add: store0_def)
  have h3: "Amazed = mapSentimentToReaction (a_userSentiment (judged ''card_force'' 0.8))"
    by (simp add: judged_def mapSentimentToReaction_def)
  have h4: "''card_force'' =
      or_default (a_trickPerformed (judged ''card_force'' 0.8)) ''general_interaction''"
    by (simp add: judged_def or_default_def)
  from captureExperience_successful_tricks [OF h1 h2 h3 h4,
      of 1000 2000 3000 "''u1''" "''s1''" six_turns 60]
  show ?thesis by (auto simp: persona_P_def)
qed

text \<open>
  Two amazed sessions with the same technique leave it twice in the list: the stored value
  is not a duplicate-free set.
\<close>

theorem successful_tricks_duplicate:
  "map successful_tricks (mentalists after_repeat) = [[''card_force'', ''card_force'']] \<and>
   \<not> distinct (concat (map successful_tricks (mentalists after_repeat)))"
  by code_simp

section \<open>The learning flag\<close>

lemma blind_return: "blind (io_return x)"
  by (simp add: blind_def io_return_def)

lemma blind_bind:
  assumes "blind m" and "\<And>x. blind (f x)"
  shows "blind (io_bind m f)"
proof -
  have "io_bind m f (forget_learning d) =
        (fst (io_bind m f d), forget_learning (snd (io_bind m f d)))" for d
  proof (cases "m d")
    case (Pair r d')
    then have md: "m (forget_learning d) = (r, forget_learning d')"
      using assms(1) by (simp add: blind_def)
    show ?thesis
    proof (cases r)
      case (Inl err)
      then show ?thesis using Pair md by (simp add: io_bind_def)
    next
      case (Inr x)
      then show ?thesis using Pair md assms(2) [of x]
        by (simp add: io_bind_def blind_def)
    qed
  qed
  then show ?thesis by (simp add: blind_def)
qed

lemma blind_exec:
  assumes "\<And>d. upd (forget_learning d) = forget_learning (upd d)"
  shows "blind (exec upd)"
  using assms by (simp add: blind_def exec_def)

lemma blind_run_insert:
  assumes "\<And>d. ins (forget_learning d) = map_sum id forget_learning (ins d)"
  shows "blind (run_insert ins)"
proof -
  have "run_insert ins (forget_learning d) =
     (fst (run_insert ins d), forget_learning (snd (run_insert ins d)))" for d
    using assms [of d] by (cases "ins d") (simp_all add: run_insert_def)
  then show ?thesis by (simp add: blind_def)
qed

lemma select_mentalist_forget:
  "select_mentalist mid (forget_learning d) =
     map_option (\<lambda>m. m\<lparr>learning_enabled := True\<rparr>) (select_mentalist mid d)"
  by (simp add: select_mentalist_def forget_learning_def find_map_pres)

lemma mentalist_exists_forget:
  "mentalist_exists mid (forget_learning d) = mentalist_exists mid d"
  by (simp add: mentalist_exists_def forget_learning_def comp_def)

lemma forget_counters:
  "update_mentalist_counters mid g t (forget_learning d) =
     forget_learning (update_mentalist_counters mid g t d)"
  by (simp add: update_mentalist_counters_def forget_learning_def comp_def if_distrib
      cong: if_cong)

lemma forget_tricks:
  "update_successful_tricks mid ts (forget_learning d) =
     forget_learning (update_successful_tricks mid ts d)"
  by (simp add: update_successful_tricks_def forget_learning_def comp_def if_distrib
      cong: if_cong)

lemma forget_insert_experience:
  "insert_experience e (forget_learning d) = map_sum id forget_learning (insert_experience e d)"
  by (simp add: insert_experience_def mentalist_exists_forget) (simp add: forget_learning_def)

lemma forget_insert_metric:
  "insert_metric r (forget_learning d) = map_sum id forget_learning (insert_metric r d)"
  by (simp add: insert_metric_def mentalist_exists_forget) (simp add: forget_learning_def)

lemma forget_update_metric:
  "update_metric rid a b c e t (forget_learning d) =
     forget_learning (update_metric rid a b c e t d)"
  by (simp add: update_metric_def forget_learning_def)

lemma select_metric_forget:
  "select_metric mid t (forget_learning d) = select_metric mid t d"
  by (simp add: select_metric_def forget_learning_def)

lemma blind_updateMentalistStats: "blind (updateMentalistStats now mid e)"
proof -
  have tail: "blind (io_bind (query (select_mentalist mid)) (\<lambda>mentalist.
               case mentalist of
                 None \<Rightarrow> io_return ()
               | Some m \<Rightarrow>
                   exec (update_successful_tricks mid
                           (successful_tricks m @ [trickPerformed e]))))"
    unfolding blind_def
    by (auto simp: io_bind_def query_def select_mentalist_forget io_return_def exec_def
        forget_tricks split: option.splits)
  show ?thesis
    unfolding updateMentalistStats_def Let_def
    by (intro blind_bind blind_exec forget_counters) (simp add: tail blind_return)
qed

lemma blind_updateTrickMetrics: "blind (updateTrickMetrics now mid e)"
  unfolding blind_def
  by (auto simp: updateTrickMetrics_def io_bind_def query_def Let_def exec_def
      forget_update_metric run_insert_def forget_insert_metric select_metric_forget
      split: option.splits sum.splits)

lemma blind_captureExperience:
  "blind (captureExperience rnd now ns nm mid uid sid a msgs dur)"
  unfolding captureExperience_def Let_def
  by (intro blind_bind blind_run_insert forget_insert_experience
      blind_updateMentalistStats blind_updateTrickMetrics blind_return)

lemma learning_flags_updateMentalistStats:
  "map learning_enabled (mentalists (snd (updateMentalistStats now mid e d))) =
   map learning_enabled (mentalists d)"
  by (simp add: updateMentalistStats_def io_bind_def exec_def query_def io_return_def Let_def
      update_mentalist_counters_def update_successful_tricks_def comp_def if_distrib
      split: option.splits cong: if_cong)

lemma learning_flags_captureExperience:
  "map learning_enabled
     (mentalists (snd (captureExperience rnd now ns nm mid uid sid a msgs dur d))) =
   map learning_enabled (mentalists d)"
proof (cases "insert_experience
    ((build_experience rnd now mid uid sid a msgs dur)\<lparr>timestamp := now div 1000\<rparr>) d")
  case (Inl err)
  then show ?thesis
    by (simp add: captureExperience_def Let_def io_bind_def run_insert_def)
next
  case (Inr d1)
  have "mentalists d1 = mentalists d"
    using insert_experience_Inr [OF Inr] by simp
  then show ?thesis
    using captureExperience_after_insert(2) [OF refl Inr, of ns nm]
      learning_flags_updateMentalistStats [of ns mid _ d1]
    by simp
qed

lemma forget_learning_fields:
  "experiences (forget_learning d) = experiences d"
  "performance_metrics (forget_learning d) = performance_metrics d"
  "map experience_level (mentalists (forget_learning d)) = map experience_level (mentalists d)"
  "map total_performances (mentalists (forget_learning d)) =
     map total_performances (mentalists d)"
  "map successful_tricks (mentalists (forget_learning d)) = map successful_tricks (mentalists d)"
  by (simp_all add: forget_learning_def comp_def)

text \<open>
  C10. \<^verbatim>\<open>captureExperience\<close> never reads \<open>learning_enabled\<close>. Run on two databases that
  differ only in the flags of their mentalists, it returns the same result (the same
  Outcome or the same rejection) and writes the same Outcome rows, the same metric rows and
  the same counters and technique lists; the databases it leaves differ again in the flags
  only, and it changes no flag. So experience is recorded, and the counters grow, for a
  persona whose learning is disabled.
\<close>

theorem captureExperience_ignores_learning_enabled:
  assumes "forget_learning d1 = forget_learning d2"
    and "run1 = captureExperience rnd now ns nm mid uid sid a msgs dur d1"
    and "run2 = captureExperience rnd now ns nm mid uid sid a msgs dur d2"
  shows "fst run1 = fst run2 \<and>
         forget_learning (snd run1) = forget_learning (snd run2) \<and>
         experiences (snd run1) = experiences (snd run2) \<and>
         performance_metrics (snd run1) = performance_metrics (snd run2) \<and>
         map experience_level (mentalists (snd run1)) =
           map experience_level (mentalists (snd run2)) \<and>
         map total_performances (mentalists (snd run1)) =
           map total_performances (mentalists (snd run2)) \<and>
         map successful_tricks (mentalists (snd run1)) =
           map successful_tricks (mentalists (snd run2)) \<and>
         map learning_enabled (mentalists (snd run1)) = map learning_enabled (mentalists d1) \<and>
         map learning_enabled (mentalists (snd run2)) = map learning_enabled (mentalists d2)"
proof -
  let ?c = "captureExperience rnd now ns nm mid uid sid a msgs dur"
  have comm: "?c (forget_learning d) = (fst (?c d), forget_learning (snd (?c d)))" for d
    using blind_captureExperience [of rnd now ns nm mid uid sid a msgs dur]
    by (simp add: blind_def)
  have "(fst run1, forget_learning (snd run1)) = (fst run2, forget_learning (snd run2))"
    using comm [of d1] comm [of d2] assms by simp
  then have res: "fst run1 = fst run2"
    and fg: "forget_learning (snd run1) = forget_learning (snd run2)"
    by simp_all
  have flags: "map learning_enabled (mentalists (snd run1)) = map learning_enabled (mentalists d1)"
    "map learning_enabled (mentalists (snd run2)) = map learning_enabled (mentalists d2)"
    using assms(2,3) by (simp_all add: learning_flags_captureExperience)
  show ?thesis
    using res fg flags
      forget_learning_fields [of "snd run1"] forget_learning_fields [of "snd run2"]
    by simp
qed

theorem captureExperience_ignores_learning_enabled_witness:
  "forget_learning store0_disabled = forget_learning store0 \<and>
   fst (captureExperience ''1'' 1000 2000 3000 ''P'' ''u1'' ''s1''
          (judged ''card_force'' 0.8) six_turns 60 store0_disabled) =
   fst (captureExperience ''1'' 1000 2000 3000 ''P'' ''u1'' ''s1''
          (judged ''card_force'' 0.8) six_turns 60 store0) \<and>
   map learning_enabled (mentalists (snd (captureExperience ''1'' 1000 2000 3000 ''P'' ''u1''
          ''s1'' (judged ''card_force'' 0.8) six_turns 60 store0_disabled))) = [False] \<and>
   map experience_level (mentalists (snd (captureExperience ''1'' 1000 2000 3000 ''P'' ''u1''
          ''s1'' (judged ''card_force'' 0.8) six_turns 60 store0_disabled))) = [35] \<and>
   map experience_level (mentalists (snd (captureExperience ''1'' 1000 2000 3000 ''P'' ''u1''
          ''s1'' (judged ''card_force'' 0.8) six_turns 60 store0))) = [35]"
proof -
  have same: "forget_learning store0_disabled = forget_learning store0"
    by (simp add: forget_learning_def store0_disabled_def store0_def persona_P_def)
  have level: "map experience_level (mentalists (snd (captureExperience ''1'' 1000 2000 3000
      ''P'' ''u1'' ''s1'' (judged ''card_force'' 0.8) six_turns 60 store0))) = [35]"
    by code_simp
  have off: "map learning_enabled (mentalists store0_disabled) = [False]"
    by (simp add: store0_disabled_def)
  show ?thesis
    using captureExperience_ignores_learning_enabled [OF same refl refl,
        of "''1''" 1000 2000 3000 "''P''" "''u1''" "''s1''" "judged ''card_force'' 0.8"
           six_turns 60]
      same level off
    by simp
qed

section \<open>The running metrics\<close>

lemma mapReactionToRating_nonneg: "mapReactionToRating r \<ge> 0"
  by (cases r) simp_all

lemma updateTrickMetrics_seq_existing:
  assumes "select_metric mid t d = Some r"
    and "\<forall>x\<in>set es. trickPerformed (snd x) = t"
    and "total_attempts r = int k" and "k \<ge> 1" and "A \<ge> 0"
    and "A * (1 - 1 / 2 ^ 53) ^ j \<le> average_user_rating r * real k"
    and "average_user_rating r * real k \<le> A * (1 + 1 / 2 ^ 53) ^ j"
  shows "\<exists>r'. fst (updateTrickMetrics_seq mid es d) = Inr () \<and>
     select_metric mid t (snd (updateTrickMetrics_seq mid es d)) = Some r' \<and>
     total_attempts r' = int (k + length es) \<and>
     success_count r' = success_count r + int (length (filter (\<lambda>x. is_success (snd x)) es)) \<and>
     (es \<noteq> [] \<longrightarrow>
        success_rate r' =
          binary64 (real_of_int (success_count r') / real_of_int (total_attempts r'))) \<and>
     (A + (\<Sum>x\<leftarrow>es. mapReactionToRating (userReaction (snd x))))
         * (1 - 1 / 2 ^ 53) ^ (j + 3 * length es)
       \<le> average_user_rating r' * real (k + length es) \<and>
     average_user_rating r' * real (k + length es)
       \<le> (A + (\<Sum>x\<leftarrow>es. mapReactionToRating (userReaction (snd x))))
            * (1 + 1 / 2 ^ 53) ^ (j + 3 * length es)"
  using assms
proof (induction es arbitrary: d r k A j)
  case Nil
  then show ?case by (simp add: io_return_def)
next
  case (Cons x es)
  obtain now e where x: "x = (now, e)" by (cases x)
  have t: "trickPerformed e = t" using Cons.prems(2) x by simp
  define rt where "rt = mapReactionToRating (userReaction e)"
  have rt0: "rt \<ge> 0" unfolding rt_def by (rule mapReactionToRating_nonneg)
  define avg1 where "avg1 =
    binary64 (binary64 (binary64 (average_user_rating r * real k) + rt) / real (k + 1))"
  define r1 where "r1 = r\<lparr>total_attempts := total_attempts r + 1,
                  success_count := success_count r + (if is_success e then 1 else 0),
                  success_rate :=
                    binary64 (real_of_int (success_count r + (if is_success e then 1 else 0))
                                / real_of_int (total_attempts r + 1)),
                  average_user_rating :=
                    binary64
                      (binary64 (binary64 (average_user_rating r
                                             * real_of_int (total_attempts r))
                                 + mapReactionToRating (userReaction e))
                         / real_of_int (total_attempts r + 1)),
                  last_updated := now div 1000\<rparr>"
  define d1 where "d1 = snd (updateTrickMetrics now mid e d)"
  have cast: "real k = real_of_int (total_attempts r)"
    "real (k + 1) = real_of_int (total_attempts r + 1)"
    using Cons.prems(3) by simp_all
  have ok: "fst (updateTrickMetrics now mid e d) = Inr ()"
    and sel: "select_metric mid t d1 = Some r1"
    using updateTrickMetrics_existing [of mid e d r now] Cons.prems(1) t
    by (simp_all add: r1_def d1_def)
  have step: "updateTrickMetrics_seq mid (x # es) d = updateTrickMetrics_seq mid es d1"
    using ok by (cases "updateTrickMetrics now mid e d") (simp add: x io_bind_def d1_def)
  have tot1: "total_attempts r1 = int (k + 1)" using Cons.prems(3) by (simp add: r1_def)
  have k1: "k + 1 \<ge> 1" by simp
  have A1: "A + rt \<ge> 0" using Cons.prems(5) rt0 by simp
  have avg_r1: "average_user_rating r1 = avg1"
    unfolding r1_def avg1_def rt_def cast by simp
  note bounds = running_mean_step [OF Cons.prems(6) Cons.prems(7) Cons.prems(5) rt0 avg1_def]
  have same: "\<forall>x\<in>set es. trickPerformed (snd x) = t" using Cons.prems(2) by simp
  from Cons.IH [OF sel same tot1 k1 A1, of "j + 3"] bounds
  obtain r' where r': "fst (updateTrickMetrics_seq mid es d1) = Inr ()"
     "select_metric mid t (snd (updateTrickMetrics_seq mid es d1)) = Some r'"
     "total_attempts r' = int (k + 1 + length es)"
     "success_count r' = success_count r1 + int (length (filter (\<lambda>x. is_success (snd x)) es))"
     "es \<noteq> [] \<longrightarrow>
        success_rate r' =
          binary64 (real_of_int (success_count r') / real_of_int (total_attempts r'))"
     "(A + rt + (\<Sum>x\<leftarrow>es. mapReactionToRating (userReaction (snd x))))
         * (1 - 1 / 2 ^ 53) ^ (j + 3 + 3 * length es)
       \<le> average_user_rating r' * real (k + 1 + length es)"
     "average_user_rating r' * real (k + 1 + length es)
       \<le> (A + rt + (\<Sum>x\<leftarrow>es. mapReactionToRating (userReaction (snd x))))
            * (1 + 1 / 2 ^ 53) ^ (j + 3 + 3 * length es)"
    unfolding avg_r1 by blast
  have rate: "success_rate r' =
      binary64 (real_of_int (success_count r') / real_of_int (total_attempts r'))"
  proof (cases "es = []")
    case True
    then have "r' = r1" using r'(2) sel by (simp add: io_return_def)
    then show ?thesis by (simp add: r1_def)
  next
    case False
    then show ?thesis using r'(5) by simp
  qed
  have idx: "k + 1 + length es = k + length (x # es)"
    "j + 3 + 3 * length es = j + 3 * length (x # es)"
    by simp_all
  have sum: "A + rt + (\<Sum>x\<leftarrow>es. mapReactionToRating (userReaction (snd x))) =
      A + (\<Sum>y\<leftarrow>x # es. mapReactionToRating (userReaction (snd y)))"
    by (simp add: x rt_def)
  have cnt: "success_count r' =
      success_count r + int (length (filter (\<lambda>x. is_success (snd x)) (x # es)))"
    using r'(4) by (simp add: r1_def x)
  show ?case
    unfolding step
    using r'(1,2) r'(3) [unfolded idx] cnt rate r'(6,7) [unfolded idx sum]
    by (intro exI [of _ r']) simp
qed

text \<open>
  C1. Take a pair (mentalist, technique) with no metric row yet, and any run of n \<ge> 1
  metric updates for it, n below \<open>2\<^sup>5\<^sup>3\<close> (the range in which JavaScript counts exactly). The first update creates the row (no other row holds the id
  \<^verbatim>\<open>mentalist_technique\<close>, and the mentalist exists where foreign keys are enforced), each
  later one applies the online update. After the run the row has totalAttempts = n,
  successCount = the number of amazed or engaged reactions, and successRate is the
  quotient successCount / totalAttempts as a double, within the relative error
  \<open>2\<^sup>-\<^sup>5\<^sup>3\<close> of the exact quotient. averageRating is the arithmetic mean of the n
  ratings within a floating tolerance: each update rounds three times, so the stored
  average lies within the relative error \<open>(1 + 2\<^sup>-\<^sup>5\<^sup>3)\<^sup>3\<^sup>(\<^sup>n\<^sup>-\<^sup>1\<^sup>) - 1\<close> of the
  mean, which grows with n and is zero for n = 1.
\<close>

theorem updateTrickMetrics_running_mean:
  assumes fresh: "select_metric mid t d = None"
    and noclash: "mid @ ''_'' @ t \<notin> set (map pm_id (performance_metrics d))"
    and fk: "foreign_keys d \<Longrightarrow> mentalist_exists mid d"
    and nonempty: "es \<noteq> []"
    and same: "\<forall>x\<in>set es. trickPerformed (snd x) = t"
    and mean: "mean = (\<Sum>x\<leftarrow>es. mapReactionToRating (userReaction (snd x))) / real (length es)"
    and exact_counts: "length es < 2 ^ 53"
  shows "\<exists>r. fst (updateTrickMetrics_seq mid es d) = Inr () \<and>
     select_metric mid t (snd (updateTrickMetrics_seq mid es d)) = Some r \<and>
     total_attempts r = int (length es) \<and>
     success_count r = int (length (filter (\<lambda>x. is_success (snd x)) es)) \<and>
     success_rate r = binary64 (real_of_int (success_count r) / real_of_int (total_attempts r)) \<and>
     \<bar>success_rate r - real_of_int (success_count r) / real_of_int (total_attempts r)\<bar>
       \<le> (real_of_int (success_count r) / real_of_int (total_attempts r)) / 2 ^ 53 \<and>
     mean * (1 - 1 / 2 ^ 53) ^ (3 * (length es - 1)) \<le> average_user_rating r \<and>
     average_user_rating r \<le> mean * (1 + 1 / 2 ^ 53) ^ (3 * (length es - 1)) \<and>
     \<bar>average_user_rating r - mean\<bar>
       \<le> ((1 + 1 / 2 ^ 53) ^ (3 * (length es - 1)) - 1) * mean"
proof -
  obtain now e rest where es: "es = (now, e) # rest"
    using nonempty by (cases es) auto
  have t: "trickPerformed e = t" using same es by simp
  define rt where "rt = mapReactionToRating (userReaction e)"
  have rt0: "rt \<ge> 0" unfolding rt_def by (rule mapReactionToRating_nonneg)
  define r0 where "r0 = \<lparr>pm_id = mid @ ''_'' @ trickPerformed e, pm_mentalist_id = mid,
               trick_name = trickPerformed e, total_attempts = 1,
               success_count = (if is_success e then 1 else 0),
               success_rate = (if is_success e then 1 else 0),
               average_user_rating = mapReactionToRating (userReaction e),
               best_contexts = ''[]'', common_failures = ''[]'', refinements = ''[]'',
               last_updated = now div 1000\<rparr>"
  define d1 where "d1 = snd (updateTrickMetrics now mid e d)"
  have ok: "fst (updateTrickMetrics now mid e d) = Inr ()"
    and sel: "select_metric mid t d1 = Some r0"
    using updateTrickMetrics_fresh [of mid e d now] fresh noclash fk t
    by (simp_all add: r0_def d1_def)
  have step: "updateTrickMetrics_seq mid es d = updateTrickMetrics_seq mid rest d1"
    using ok by (cases "updateTrickMetrics now mid e d") (simp add: es io_bind_def d1_def)
  have same': "\<forall>x\<in>set rest. trickPerformed (snd x) = t" using same es by simp
  have tot0: "total_attempts r0 = int 1" by (simp add: r0_def)
  have lo0: "rt * (1 - 1 / 2 ^ 53) ^ 0 \<le> average_user_rating r0 * real 1"
    and hi0: "average_user_rating r0 * real 1 \<le> rt * (1 + 1 / 2 ^ 53) ^ 0"
    by (simp_all add: r0_def rt_def)
  define total where "total = (\<Sum>x\<leftarrow>es. mapReactionToRating (userReaction (snd x)))"
  define n where "n = length es"
  define m where "m = 3 * (n - 1)"
  from updateTrickMetrics_seq_existing [OF sel same' tot0 order_refl rt0 lo0 hi0]
  obtain r where r: "fst (updateTrickMetrics_seq mid rest d1) = Inr ()"
     "select_metric mid t (snd (updateTrickMetrics_seq mid rest d1)) = Some r"
     "total_attempts r = int (1 + length rest)"
     "success_count r = success_count r0 + int (length (filter (\<lambda>x. is_success (snd x)) rest))"
     "rest \<noteq> [] \<longrightarrow>
        success_rate r = binary64 (real_of_int (success_count r) / real_of_int (total_attempts r))"
     "(rt + (\<Sum>x\<leftarrow>rest. mapReactionToRating (userReaction (snd x))))
         * (1 - 1 / 2 ^ 53) ^ (0 + 3 * length rest)
       \<le> average_user_rating r * real (1 + length rest)"
     "average_user_rating r * real (1 + length rest)
       \<le> (rt + (\<Sum>x\<leftarrow>rest. mapReactionToRating (userReaction (snd x))))
            * (1 + 1 / 2 ^ 53) ^ (0 + 3 * length rest)"
    by blast
  have n: "1 + length rest = n" "0 + 3 * length rest = m" and npos: "real n > 0"
    by (simp_all add: n_def m_def es)
  have tot: "rt + (\<Sum>x\<leftarrow>rest. mapReactionToRating (userReaction (snd x))) = total"
    by (simp add: total_def es rt_def)
  have total_attempts: "total_attempts r = int (length es)" using r(3) by (simp add: es)
  have count: "success_count r = int (length (filter (\<lambda>x. is_success (snd x)) es))"
    using r(4) by (simp add: r0_def es)
  have rate: "success_rate r =
      binary64 (real_of_int (success_count r) / real_of_int (total_attempts r))"
  proof (cases "rest = []")
    case True
    then have "r = r0" using r(2) sel by (simp add: io_return_def)
    then show ?thesis by (simp add: r0_def binary64_0 binary64_1)
  next
    case False
    then show ?thesis using r(5) by simp
  qed
  have q0: "real_of_int (success_count r) / real_of_int (total_attempts r) \<ge> 0"
    by (simp add: count total_attempts)
  have rate_err: "\<bar>success_rate r - real_of_int (success_count r) / real_of_int (total_attempts r)\<bar>
       \<le> (real_of_int (success_count r) / real_of_int (total_attempts r)) / 2 ^ 53"
    unfolding rate
    using binary64_error [of "real_of_int (success_count r) / real_of_int (total_attempts r)"] q0
    by simp
  have mean_n: "mean * real n = total" using npos by (simp add: mean total_def n_def)
  have total0: "total \<ge> 0"
    unfolding total_def by (intro sum_list_nonneg) (auto simp: mapReactionToRating_nonneg)
  have mean0: "mean \<ge> 0"
    unfolding mean total_def [symmetric] using total0 by simp
  define a :: real where "a = 1 + 1 / 2 ^ 53"
  define b :: real where "b = 1 - 1 / 2 ^ 53"
  have lo: "mean * real n * b ^ m \<le> average_user_rating r * real n"
    and hi: "average_user_rating r * real n \<le> mean * real n * a ^ m"
    using r(6,7) unfolding n tot mean_n a_def b_def by simp_all
  have lo': "mean * b ^ m \<le> average_user_rating r"
  proof -
    have "(mean * b ^ m) * real n \<le> average_user_rating r * real n"
      using lo by (simp add: mult_ac)
    then show ?thesis using npos by (simp only: mult_le_cancel_right_pos)
  qed
  have hi': "average_user_rating r \<le> mean * a ^ m"
  proof -
    have "average_user_rating r * real n \<le> (mean * a ^ m) * real n"
      using hi by (simp add: mult_ac)
    then show ?thesis using npos by (simp only: mult_le_cancel_right_pos)
  qed
  have sym: "1 - b ^ m \<le> a ^ m - 1"
    using lower_deficit_le_upper_excess [of "1 / 2 ^ 53" m] by (simp add: a_def b_def)
  have up: "average_user_rating r - mean \<le> (a ^ m - 1) * mean"
    using hi' by (simp add: algebra_simps)
  have "mean * (1 - b ^ m) \<le> mean * (a ^ m - 1)"
    using sym mean0 by (rule mult_left_mono)
  then have down: "mean - average_user_rating r \<le> (a ^ m - 1) * mean"
    using lo' by (simp add: algebra_simps)
  have err: "\<bar>average_user_rating r - mean\<bar> \<le> (a ^ m - 1) * mean"
    using up down by (simp add: abs_le_iff)
  show ?thesis
    unfolding step
    using r(1,2) total_attempts count rate rate_err lo' hi' err
    unfolding a_def b_def m_def n_def
    by (intro exI [of _ r]) simp
qed

theorem updateTrickMetrics_running_mean_witness:
  "\<exists>r. fst (updateTrickMetrics_seq ''P'' [(3000, first_outcome), (11000, second_outcome)]
            store0) = Inr () \<and>
     select_metric ''P'' ''card_force''
       (snd (updateTrickMetrics_seq ''P'' [(3000, first_outcome), (11000, second_outcome)]
            store0)) = Some r \<and>
     total_attempts r = 2 \<and> success_count r = 1 \<and> success_rate r = 1 / 2 \<and>
     \<bar>average_user_rating r - 7 / 2\<bar> \<le> ((1 + 1 / 2 ^ 53) ^ 3 - 1) * (7 / 2)"
proof -
  let ?es = "[(3000 :: int, first_outcome), (11000, second_outcome)]"
  have h1: "select_metric ''P'' ''card_force'' store0 = None"
    by (simp add: select_metric_def store0_def)
  have h2: "''P'' @ ''_'' @ ''card_force'' \<notin> set (map pm_id (performance_metrics store0))"
    by (simp add: store0_def)
  have h3: "mentalist_exists ''P'' store0"
    by (simp add: mentalist_exists_def store0_def persona_P_def)
  have h4: "?es \<noteq> []" by simp
  have t1: "trickPerformed first_outcome = ''card_force''"
    and t2: "trickPerformed second_outcome = ''card_force''"
    by (simp_all add: first_outcome_def second_outcome_def build_experience_def judged_def
        or_default_def)
  have h5: "\<forall>x\<in>set ?es. trickPerformed (snd x) = ''card_force''"
    using t1 t2 by simp
  have r1: "userReaction first_outcome = Amazed"
    and r2: "userReaction second_outcome = Skeptical"
    by (simp_all add: first_outcome_def second_outcome_def build_experience_def judged_def
        mapSentimentToReaction_def)
  have h6: "(7 / 2 :: real) =
      (\<Sum>x\<leftarrow>?es. mapReactionToRating (userReaction (snd x))) / real (length ?es)"
    by (simp add: r1 r2)
  have h7: "length ?es < 2 ^ 53" by simp
  from updateTrickMetrics_running_mean [OF h1 h2 h3 h4 h5 h6 h7]
  obtain r where r: "fst (updateTrickMetrics_seq ''P'' ?es store0) = Inr ()"
    "select_metric ''P'' ''card_force'' (snd (updateTrickMetrics_seq ''P'' ?es store0)) = Some r"
    "total_attempts r = int (length ?es)"
    "success_count r = int (length (filter (\<lambda>x. is_success (snd x)) ?es))"
    "success_rate r = binary64 (real_of_int (success_count r) / real_of_int (total_attempts r))"
    "\<bar>average_user_rating r - 7 / 2\<bar>
       \<le> ((1 + 1 / 2 ^ 53) ^ (3 * (length ?es - 1)) - 1) * (7 / 2)"
    by blast
  have a: "total_attempts r = 2" using r(3) by simp
  have b: "success_count r = 1" using r(4) by (simp add: r1 r2 is_success_def)
  have c: "success_rate r = 1 / 2" using r(5) by (simp add: a b binary64_half)
  have d: "\<bar>average_user_rating r - 7 / 2\<bar> \<le> ((1 + 1 / 2 ^ 53) ^ 3 - 1) * (7 / 2)"
    using r(6) by simp
  show ?thesis using r(1,2) a b c d by (intro exI [of _ r]) simp
qed

section \<open>No transaction around the three steps\<close>

text \<open>
  A capture for mentalist \<open>a\<close> with the technique \<open>b_c\<close> on \<open>store_clash\<close>: the metric id
  \<open>a_b_c\<close> is taken by the row of the pair (\<open>a_b\<close>, \<open>c\<close>), so the insert of the metric row
  is rejected and \<^verbatim>\<open>captureExperience\<close> fails. The Outcome it inserted before and the
  counters it updated before are in the store all the same, and no metric is recorded
  for the pair: a partial state that later reads observe.
\<close>

theorem captureExperience_partial_state:
  "fst (captureExperience ''1'' 1000 2000 3000 ''a'' ''u1'' ''s1''
          (judged ''b_c'' 0.8) six_turns 60 store_clash) = Inl UniqueViolation \<and>
   map e_id (experiences (snd (captureExperience ''1'' 1000 2000 3000 ''a'' ''u1'' ''s1''
          (judged ''b_c'' 0.8) six_turns 60 store_clash))) = [''exp_1''] \<and>
   map total_performances (mentalists (snd (captureExperience ''1'' 1000 2000 3000 ''a''
          ''u1'' ''s1'' (judged ''b_c'' 0.8) six_turns 60 store_clash))) = [1, 0] \<and>
   map experience_level (mentalists (snd (captureExperience ''1'' 1000 2000 3000 ''a''
          ''u1'' ''s1'' (judged ''b_c'' 0.8) six_turns 60 store_clash))) = [35, 0] \<and>
   select_metric ''a'' ''b_c'' (snd (captureExperience ''1'' 1000 2000 3000 ''a''
          ''u1'' ''s1'' (judged ''b_c'' 0.8) six_turns 60 store_clash)) = None \<and>
   map pm_id (performance_metrics (snd (captureExperience ''1'' 1000 2000 3000 ''a''
          ''u1'' ''s1'' (judged ''b_c'' 0.8) six_turns 60 store_clash))) = [''a_b_c'']"
  by code_simp

text \<open>
  C4, as the code has it. \<^verbatim>\<open>captureExperience\<close> runs the insert of the Outcome, the update
  of the persona's counters and the update of the technique's metrics as three steps
  awaited one after the other, and nothing is rolled back. If the insert of the Outcome is
  rejected, nothing is written. Once it went through, the Outcome row is stored and the
  persona's counters, last performance and technique list are updated, whatever follows.
  Then either the metric update goes through as well and all three effects are applied:
  the Outcome is returned and the row of the pair is the existing row with the online
  update applied, or the newly created row; or the metric update is rejected, the call
  fails, and the store keeps the Outcome and the counters with the metrics as they were.
\<close>

theorem captureExperience_no_rollback:
  assumes e: "e = build_experience rnd now mid uid sid a msgs dur"
    and row: "row = e\<lparr>timestamp := now div 1000\<rparr>"
    and run: "run = captureExperience rnd now ns nm mid uid sid a msgs dur d"
  shows "(\<forall>err. insert_experience row d = Inl err \<longrightarrow> run = (Inl err, d)) \<and>
         (\<forall>d1. insert_experience row d = Inr d1 \<longrightarrow>
            experiences (snd run) = experiences d @ [row] \<and>
            select_mentalist mid (snd run) =
              map_option (\<lambda>m. m\<lparr>total_performances := total_performances m + 1,
                                 experience_level := experience_level m + calculateExpGain e,
                                 last_performance := Some (ns div 1000),
                                 successful_tricks :=
                                   (if is_success e then successful_tricks m @ [trickPerformed e]
                                    else successful_tricks m)\<rparr>)
                (select_mentalist mid d) \<and>
            (fst run = Inr e \<and>
             select_metric mid (trickPerformed e) (snd run) =
               Some (case select_metric mid (trickPerformed e) d of
                       Some ex \<Rightarrow>
                         ex\<lparr>total_attempts := total_attempts ex + 1,
                            success_count := success_count ex + (if is_success e then 1 else 0),
                            success_rate :=
                              binary64
                                (real_of_int (success_count ex + (if is_success e then 1 else 0))
                                   / real_of_int (total_attempts ex + 1)),
                            average_user_rating :=
                              binary64
                                (binary64 (binary64 (average_user_rating ex
                                                       * real_of_int (total_attempts ex))
                                           + mapReactionToRating (userReaction e))
                                   / real_of_int (total_attempts ex + 1)),
                            last_updated := nm div 1000\<rparr>
                     | None \<Rightarrow>
                         \<lparr>pm_id = mid @ ''_'' @ trickPerformed e, pm_mentalist_id = mid,
                          trick_name = trickPerformed e, total_attempts = 1,
                          success_count = (if is_success e then 1 else 0),
                          success_rate = (if is_success e then 1 else 0),
                          average_user_rating = mapReactionToRating (userReaction e),
                          best_contexts = ''[]'', common_failures = ''[]'',
                          refinements = ''[]'', last_updated = nm div 1000\<rparr>) \<or>
             (\<exists>err. fst run = Inl err) \<and>
               performance_metrics (snd run) = performance_metrics d))"
proof (intro conjI allI impI)
  fix err assume "insert_experience row d = Inl err"
  then show "run = (Inl err, d)"
    by (simp add: run captureExperience_def Let_def io_bind_def run_insert_def
        e [symmetric] row [symmetric])
next
  fix d1 assume ins: "insert_experience row d = Inr d1"
  then have ins': "insert_experience (e\<lparr>timestamp := now div 1000\<rparr>) d = Inr d1"
    by (simp add: row)
  note after = captureExperience_after_insert [OF e ins', of ns nm]
  have d1: "d1 = d\<lparr>experiences := experiences d @ [row]\<rparr>"
    using insert_experience_Inr [OF ins] .
  define d2 where "d2 = snd (updateMentalistStats ns mid e d1)"
  show "experiences (snd run) = experiences d @ [row]"
    using after(1) by (simp add: run row)
  have "select_mentalist mid (snd run) = select_mentalist mid d2"
    unfolding run d2_def using after(2) by (rule select_mentalist_cong)
  moreover have "select_mentalist mid d1 = select_mentalist mid d"
    by (simp add: d1 select_mentalist_def)
  ultimately show "select_mentalist mid (snd run) =
              map_option (\<lambda>m. m\<lparr>total_performances := total_performances m + 1,
                                 experience_level := experience_level m + calculateExpGain e,
                                 last_performance := Some (ns div 1000),
                                 successful_tricks :=
                                   (if is_success e then successful_tricks m @ [trickPerformed e]
                                    else successful_tricks m)\<rparr>)
                (select_mentalist mid d)"
    by (simp add: d2_def select_mentalist_updateMentalistStats)
  have run': "run = (case fst (updateTrickMetrics nm mid e d2) of
                       Inl err \<Rightarrow> Inl err | Inr _ \<Rightarrow> Inr e,
                     snd (updateTrickMetrics nm mid e d2))"
    using after(3) by (simp add: run d2_def)
  have pm2: "performance_metrics d2 = performance_metrics d"
    using unchanged_by_updateMentalistStats(2) [of ns mid e d1] by (simp add: d2_def d1)
  then have sel2: "select_metric mid (trickPerformed e) d2 = select_metric mid (trickPerformed e) d"
    by (simp add: select_metric_def)
  show "fst run = Inr e \<and>
             select_metric mid (trickPerformed e) (snd run) =
               Some (case select_metric mid (trickPerformed e) d of
                       Some ex \<Rightarrow>
                         ex\<lparr>total_attempts := total_attempts ex + 1,
                            success_count := success_count ex + (if is_success e then 1 else 0),
                            success_rate :=
                              binary64
                                (real_of_int (success_count ex + (if is_success e then 1 else 0))
                                   / real_of_int (total_attempts ex + 1)),
                            average_user_rating :=
                              binary64
                                (binary64 (binary64 (average_user_rating ex
                                                       * real_of_int (total_attempts ex))
                                           + mapReactionToRating (userReaction e))
                                   / real_of_int (total_attempts ex + 1)),
                            last_updated := nm div 1000\<rparr>
                     | None \<Rightarrow>
                         \<lparr>pm_id = mid @ ''_'' @ trickPerformed e, pm_mentalist_id = mid,
                          trick_name = trickPerformed e, total_attempts = 1,
                          success_count = (if is_success e then 1 else 0),
                          success_rate = (if is_success e then 1 else 0),
                          average_user_rating = mapReactionToRating (userReaction e),
                          best_contexts = ''[]'', common_failures = ''[]'',
                          refinements = ''[]'', last_updated = nm div 1000\<rparr>) \<or>
             (\<exists>err. fst run = Inl err) \<and>
               performance_metrics (snd run) = performance_metrics d"
  proof (cases "fst (updateTrickMetrics nm mid e d2)")
    case (Inl err)
    then have "snd (updateTrickMetrics nm mid e d2) = d2"
      by (rule updateTrickMetrics_rejected)
    then show ?thesis using Inl run' pm2 by simp
  next
    case (Inr u)
    then have ok: "fst (updateTrickMetrics nm mid e d2) = Inr ()" by simp
    have "fst run = Inr e" using Inr run' by simp
    moreover have "select_metric mid (trickPerformed e) (snd run) =
        select_metric mid (trickPerformed e) (snd (updateTrickMetrics nm mid e d2))"
      using run' by simp
    ultimately show ?thesis
      using updateTrickMetrics_result [OF ok] unfolding sel2 by (intro disjI1 conjI) simp_all
  qed
qed

text \<open>
  Two instances: the rejected capture on \<open>store_clash\<close>, which leaves the Outcome without
  a metric, and the first capture on \<open>store0\<close>, which applies all three effects.
\<close>

theorem captureExperience_no_rollback_witness:
  "fst (captureExperience ''1'' 1000 2000 3000 ''a'' ''u1'' ''s1''
          (judged ''b_c'' 0.8) six_turns 60 store_clash) = Inl UniqueViolation \<and>
   experiences (snd (captureExperience ''1'' 1000 2000 3000 ''a'' ''u1'' ''s1''
          (judged ''b_c'' 0.8) six_turns 60 store_clash)) =
     [(build_experience ''1'' 1000 ''a'' ''u1'' ''s1'' (judged ''b_c'' 0.8) six_turns 60)
        \<lparr>timestamp := 1\<rparr>] \<and>
   performance_metrics (snd (captureExperience ''1'' 1000 2000 3000 ''a'' ''u1'' ''s1''
          (judged ''b_c'' 0.8) six_turns 60 store_clash)) = performance_metrics store_clash \<and>
   fst (captureExperience ''1'' 1000 2000 3000 ''P'' ''u1'' ''s1''
          (judged ''card_force'' 0.8) six_turns 60 store0) = Inr first_outcome \<and>
   select_metric ''P'' ''card_force'' (snd (captureExperience ''1'' 1000 2000 3000 ''P'' ''u1''
          ''s1'' (judged ''card_force'' 0.8) six_turns 60 store0)) =
     Some \<lparr>pm_id = ''P_card_force'', pm_mentalist_id = ''P'', trick_name = ''card_force'',
           total_attempts = 1, success_count = 1, success_rate = 1, average_user_rating = 5,
           best_contexts = ''[]'', common_failures = ''[]'', refinements = ''[]'',
           last_updated = 3\<rparr>"
proof -
  let ?e = "build_experience ''1'' 1000 ''a'' ''u1'' ''s1'' (judged ''b_c'' 0.8) six_turns 60"
  let ?row = "?e\<lparr>timestamp := 1000 div 1000\<rparr>"
  let ?run = "captureExperience ''1'' 1000 2000 3000 ''a'' ''u1'' ''s1''
          (judged ''b_c'' 0.8) six_turns 60 store_clash"
  have fresh: "e_id ?row \<notin> set (map e_id (experiences store_clash))"
    by (simp add: store_clash_def)
  have ex: "mentalist_exists (mentalistId ?row) store_clash"
    by (simp add: mentalist_exists_def store_clash_def build_experience_def)
  have ins: "insert_experience ?row store_clash =
      Inr (store_clash\<lparr>experiences := experiences store_clash @ [?row]\<rparr>)"
    using fresh ex by (rule insert_experience_fresh)
  have failed: "fst ?run = Inl UniqueViolation" by code_simp
  have empty: "experiences store_clash = []" by (simp add: store_clash_def)
  from captureExperience_no_rollback [where rnd = "''1''" and now = 1000 and mid = "''a''"
      and uid = "''u1''" and sid = "''s1''" and a = "judged ''b_c'' 0.8" and msgs = six_turns
      and dur = 60 and ns = 2000 and nm = 3000 and d = store_clash, OF refl refl refl]
    ins failed empty
  have clash: "fst ?run = Inl UniqueViolation \<and> experiences (snd ?run) = [?e\<lparr>timestamp := 1\<rparr>] \<and>
      performance_metrics (snd ?run) = performance_metrics store_clash"
    by simp
  let ?run0 = "captureExperience ''1'' 1000 2000 3000 ''P'' ''u1'' ''s1''
          (judged ''card_force'' 0.8) six_turns 60 store0"
  let ?row0 = "first_outcome\<lparr>timestamp := 1000 div 1000\<rparr>"
  have fresh0: "e_id ?row0 \<notin> set (map e_id (experiences store0))"
    by (simp add: store0_def)
  have ex0: "mentalist_exists (mentalistId ?row0) store0"
    by (simp add: mentalist_exists_def store0_def persona_P_def first_outcome_def
        build_experience_def)
  have ins0: "insert_experience ?row0 store0 =
      Inr (store0\<lparr>experiences := experiences store0 @ [?row0]\<rparr>)"
    using fresh0 ex0 by (rule insert_experience_fresh)
  have ok0: "fst ?run0 = Inr first_outcome"
    unfolding first_outcome_def by code_simp
  have none0: "select_metric ''P'' (trickPerformed first_outcome) store0 = None"
    by (simp add: select_metric_def store0_def)
  have f: "trickPerformed first_outcome = ''card_force''" "is_success first_outcome"
    "mapReactionToRating (userReaction first_outcome) = 5"
    by (simp_all add: first_outcome_def build_experience_def judged_def or_default_def
        is_success_def mapSentimentToReaction_def)
  from captureExperience_no_rollback [where rnd = "''1''" and now = 1000 and mid = "''P''"
      and uid = "''u1''" and sid = "''s1''" and a = "judged ''card_force'' 0.8"
      and msgs = six_turns and dur = 60 and ns = 2000 and nm = 3000 and d = store0
      and e = first_outcome, OF first_outcome_def refl refl]
    ins0 ok0 none0
  have "select_metric ''P'' (trickPerformed first_outcome) (snd ?run0) =
      Some \<lparr>pm_id = ''P'' @ ''_'' @ trickPerformed first_outcome, pm_mentalist_id = ''P'',
            trick_name = trickPerformed first_outcome, total_attempts = 1,
            success_count = (if is_success first_outcome then 1 else 0),
            success_rate = (if is_success first_outcome then 1 else 0),
            average_user_rating = mapReactionToRating (userReaction first_outcome),
            best_contexts = ''[]'', common_failures = ''[]'',
            refinements = ''[]'', last_updated = 3000 div 1000\<rparr>"
    by simp
  then have all3: "select_metric ''P'' ''card_force'' (snd ?run0) =
     Some \<lparr>pm_id = ''P_card_force'', pm_mentalist_id = ''P'', trick_name = ''card_force'',
           total_attempts = 1, success_count = 1, success_rate = 1, average_user_rating = 5,
           best_contexts = ''[]'', common_failures = ''[]'', refinements = ''[]'',
           last_updated = 3\<rparr>"
    by (simp add: f)
  show ?thesis using clash ok0 all3 by simp
qed

section \<open>Sessions\<close>

lemma foldl_pick_mem:
  "foldl (\<lambda>best x. if c x best then x else best) s ss \<in> set (s # ss)"
proof (induction ss arbitrary: s)
  case Nil
  then show ?case by simp
next
  case (Cons x ss)
  show ?case using Cons.IH [of "if c x s then x else s"] by auto
qed

lemma select_active_session_mem:
  assumes "select_active_session uid mid d = Some s"
  shows "s \<in> set (chat_sessions d) \<and> is_active s \<and> s_user_id s = uid \<and> s_mentalist_id s = mid"
proof -
  let ?P = "\<lambda>s. s_user_id s = uid \<and> s_mentalist_id s = mid \<and> is_active s"
  obtain c cs where f: "filter ?P (chat_sessions d) = c # cs"
    using assms by (auto simp: select_active_session_def split: list.splits)
  then have "s = foldl (\<lambda>best x. if start_time x > start_time best then x else best) c cs"
    using assms by (simp add: select_active_session_def)
  then have "s \<in> set (c # cs)"
    using foldl_pick_mem [of "\<lambda>x best. start_time x > start_time best" c cs] by simp
  then have "s \<in> set (filter ?P (chat_sessions d))" using f by simp
  then show ?thesis by simp
qed

lemma select_active_session_new:
  assumes "select_active_session uid mid d = None"
    and "s_user_id r = uid" "s_mentalist_id r = mid" "is_active r"
  shows "select_active_session uid mid (d\<lparr>chat_sessions := chat_sessions d @ [r]\<rparr>) = Some r"
  using assms by (auto simp: select_active_session_def split: list.splits)

lemma getOrCreateSession_cases:
  assumes "getOrCreateSession rnd now uid mid d = (Inr sid, d1)"
  shows "(\<exists>s. select_active_session uid mid d = Some s \<and> sid = s_id s \<and> d1 = d) \<or>
         (select_active_session uid mid d = None \<and> sid = ''session_'' @ rnd \<and>
          sid \<notin> set (map s_id (chat_sessions d)) \<and>
          d1 = d\<lparr>chat_sessions := chat_sessions d @
                 [\<lparr>s_id = sid, s_user_id = uid, s_mentalist_id = mid,
                   start_time = now div 1000, end_time = None,
                   is_active = True, message_count = 0\<rparr>]\<rparr>)"
  using assms
  by (auto simp: getOrCreateSession_def io_bind_def query_def io_return_def run_insert_def
      insert_session_def Let_def split: option.splits if_splits)

lemma getOrCreateSession_found:
  "select_active_session uid mid d = Some s \<Longrightarrow>
     getOrCreateSession rnd now uid mid d = (Inr (s_id s), d)"
  by (simp add: getOrCreateSession_def io_bind_def query_def io_return_def)

lemma getOrCreateSession_again:
  assumes "getOrCreateSession r1 n1 uid mid d = (Inr sid, d1)"
  shows "getOrCreateSession r2 n2 uid mid d1 = (Inr sid, d1)"
  using getOrCreateSession_cases [OF assms]
proof (elim disjE exE conjE)
  fix s assume "select_active_session uid mid d = Some s" "sid = s_id s" "d1 = d"
  then show ?thesis by (simp add: getOrCreateSession_found)
next
  assume none: "select_active_session uid mid d = None"
    and d1: "d1 = d\<lparr>chat_sessions := chat_sessions d @
                 [\<lparr>s_id = sid, s_user_id = uid, s_mentalist_id = mid,
                   start_time = n1 div 1000, end_time = None,
                   is_active = True, message_count = 0\<rparr>]\<rparr>"
  have "select_active_session uid mid d1 = Some \<lparr>s_id = sid, s_user_id = uid, s_mentalist_id = mid,
                   start_time = n1 div 1000, end_time = None,
                   is_active = True, message_count = 0\<rparr>"
    unfolding d1 by (rule select_active_session_new [OF none]) simp_all
  then show ?thesis using getOrCreateSession_found by fastforce
qed

lemma getOrCreateSession_known:
  assumes "getOrCreateSession rnd now uid mid d = (Inr sid, d1)"
  shows "sid \<in> set (map s_id (chat_sessions d1))"
  using getOrCreateSession_cases [OF assms] select_active_session_mem [of uid mid d]
  by auto

lemma endSession_eq: "endSession now sid d = (Inr (), update_session_end (now div 1000) sid d)"
  by (simp add: endSession_def exec_def)

lemma ids_update_session_end:
  "map s_id (chat_sessions (update_session_end t sid d)) = map s_id (chat_sessions d)"
  by (simp add: update_session_end_def comp_def if_distrib cong: if_cong)

lemma ended_inactive:
  assumes mem: "s \<in> set (chat_sessions (update_session_end t sid d))" and act: "is_active s"
  shows "s_id s \<noteq> sid"
proof -
  from mem obtain x where x: "x \<in> set (chat_sessions d)"
    and s: "s = (if s_id x = sid then x\<lparr>is_active := False, end_time := Some t\<rparr> else x)"
    by (auto simp: update_session_end_def)
  show "s_id s \<noteq> sid"
  proof (cases "s_id x = sid")
    case True
    then have "\<not> is_active s" using s by simp
    then show ?thesis using act by simp
  next
    case False
    then show ?thesis using s by simp
  qed
qed

lemma other_fields_update_session_end:
  "mentalist_exists mid (update_session_end t sid d) = mentalist_exists mid d"
  "foreign_keys (update_session_end t sid d) = foreign_keys d"
  by (simp_all add: mentalist_exists_def update_session_end_def)

lemma getOrCreateSession_after_end:
  assumes known: "sid \<in> set (map s_id (chat_sessions d))"
  shows "fst (getOrCreateSession rnd now uid mid (update_session_end t sid d)) \<noteq> Inr sid"
proof
  let ?d = "update_session_end t sid d"
  assume eq: "fst (getOrCreateSession rnd now uid mid ?d) = Inr sid"
  obtain d' where run: "getOrCreateSession rnd now uid mid ?d = (Inr sid, d')"
    using eq by (cases "getOrCreateSession rnd now uid mid ?d") simp
  from getOrCreateSession_cases [OF run] show False
  proof (elim disjE exE conjE)
    fix s assume s: "select_active_session uid mid ?d = Some s" "sid = s_id s"
    from select_active_session_mem [OF s(1)] ended_inactive [of s t sid d] s(2)
    show False by simp
  next
    assume "sid \<notin> set (map s_id (chat_sessions ?d))"
    then show False using known by (simp add: ids_update_session_end)
  qed
qed

lemma getOrCreateSession_total:
  assumes "''session_'' @ rnd \<notin> set (map s_id (chat_sessions d))"
    and "foreign_keys d \<Longrightarrow> mentalist_exists mid d"
  shows "\<exists>sid. fst (getOrCreateSession rnd now uid mid d) = Inr sid"
  using assms
  by (auto simp: getOrCreateSession_def io_bind_def query_def io_return_def run_insert_def
      insert_session_def Let_def split: option.splits)

text \<open>
  C5. When \<^verbatim>\<open>getOrCreateSession\<close> has returned a session id for a pair (user, persona),
  calling it again for the pair, with no \<^verbatim>\<open>endSession\<close> in between, returns the same id and
  changes nothing. After \<^verbatim>\<open>endSession\<close> on that session the next call for the pair does not
  return that id: and where the freshly generated id is not in the table (and the persona
  exists, if foreign keys are enforced) it returns an id, a different one.
\<close>

theorem getOrCreateSession_resume_then_new:
  assumes "getOrCreateSession r1 n1 uid mid d = (Inr sid, d1)"
  shows "getOrCreateSession r2 n2 uid mid d1 = (Inr sid, d1) \<and>
         fst (endSession n sid d1) = Inr () \<and>
         fst (getOrCreateSession r3 n3 uid mid (snd (endSession n sid d1))) \<noteq> Inr sid \<and>
         (''session_'' @ r3 \<notin> set (map s_id (chat_sessions d1)) \<and>
          (foreign_keys d1 \<longrightarrow> mentalist_exists mid d1) \<longrightarrow>
            (\<exists>sid'. fst (getOrCreateSession r3 n3 uid mid (snd (endSession n sid d1))) = Inr sid'
                  \<and> sid' \<noteq> sid))"
proof -
  have a: "getOrCreateSession r2 n2 uid mid d1 = (Inr sid, d1)"
    using assms by (rule getOrCreateSession_again)
  have known: "sid \<in> set (map s_id (chat_sessions d1))"
    using assms by (rule getOrCreateSession_known)
  have b: "fst (getOrCreateSession r3 n3 uid mid (snd (endSession n sid d1))) \<noteq> Inr sid"
    using getOrCreateSession_after_end [OF known] by (simp add: endSession_eq)
  have c: "\<exists>sid'. fst (getOrCreateSession r3 n3 uid mid (snd (endSession n sid d1))) = Inr sid'"
    if "''session_'' @ r3 \<notin> set (map s_id (chat_sessions d1))"
      and "foreign_keys d1 \<longrightarrow> mentalist_exists mid d1"
    using that getOrCreateSession_total [of r3 "update_session_end (n div 1000) sid d1" mid n3 uid]
    by (simp add: endSession_eq ids_update_session_end other_fields_update_session_end)
  show ?thesis using a b c by (auto simp: endSession_eq)
qed

theorem getOrCreateSession_resume_then_new_witness:
  "fst (getOrCreateSession ''a'' 1000 ''u1'' ''P'' store0) = Inr ''session_a'' \<and>
   getOrCreateSession ''b'' 5000 ''u1'' ''P'' store_session = (Inr ''session_a'', store_session) \<and>
   fst (getOrCreateSession ''c'' 9000 ''u1'' ''P''
          (snd (endSession 7000 ''session_a'' store_session))) \<noteq> Inr ''session_a'' \<and>
   fst (getOrCreateSession ''c'' 9000 ''u1'' ''P''
          (snd (endSession 7000 ''session_a'' store_session))) = Inr ''session_c''"
proof -
  have first: "fst (getOrCreateSession ''a'' 1000 ''u1'' ''P'' store0) = Inr ''session_a''"
    by code_simp
  then have h: "getOrCreateSession ''a'' 1000 ''u1'' ''P'' store0 =
      (Inr ''session_a'', store_session)"
    by (simp add: store_session_def prod_eq_iff)
  have third: "fst (getOrCreateSession ''c'' 9000 ''u1'' ''P''
          (snd (endSession 7000 ''session_a'' store_session))) = Inr ''session_c''"
    by code_simp
  from getOrCreateSession_resume_then_new [OF h, of "''b''" 5000 7000 "''c''" 9000] first third
  show ?thesis by simp
qed

lemma find_map_other_key:
  assumes "\<And>x. Q x \<Longrightarrow> \<not> P x \<and> \<not> P (g x)"
  shows "find P (map (\<lambda>x. if Q x then g x else x) xs) = find P xs"
  using assms by (induction xs) auto

lemma select_session_update_session_end:
  "select_session sid (update_session_end t sid d) =
     map_option (\<lambda>s. s\<lparr>is_active := False, end_time := Some t\<rparr>) (select_session sid d)"
  unfolding select_session_def update_session_end_def
  by (simp add: find_map_same_key [where P = "\<lambda>s. s_id s = sid"])

lemma select_session_update_session_end_other:
  "other \<noteq> sid \<Longrightarrow>
     select_session other (update_session_end t sid d) = select_session other d"
  unfolding select_session_def update_session_end_def
  by (simp add: find_map_other_key [where P = "\<lambda>s. s_id s = other"])

lemma update_session_end_twice:
  "update_session_end t2 sid (update_session_end t1 sid d) = update_session_end t2 sid d"
  by (simp add: update_session_end_def comp_def if_distrib cong: if_cong)

lemma update_session_end_active:
  "map is_active (chat_sessions (update_session_end t sid d)) =
   map (\<lambda>s. s_id s \<noteq> sid \<and> is_active s) (chat_sessions d)"
  by (simp add: update_session_end_def)

text \<open>
  Ending the session of \<open>store_session\<close> at second 100 and again at second 200 changes
  the stored end time from 100 to 200: the second call does not leave the state unchanged.
\<close>

theorem endSession_overwrites_end_time:
  "map end_time (chat_sessions (snd (endSession 100000 ''session_a'' store_session))) =
     [Some 100] \<and>
   map end_time (chat_sessions (snd (endSession 200000 ''session_a''
     (snd (endSession 100000 ''session_a'' store_session))))) = [Some 200] \<and>
   snd (endSession 200000 ''session_a'' (snd (endSession 100000 ''session_a'' store_session)))
     \<noteq> snd (endSession 100000 ''session_a'' store_session)"
proof -
  have a: "map end_time (chat_sessions (snd (endSession 100000 ''session_a'' store_session))) =
     [Some 100]"
    by code_simp
  have b: "map end_time (chat_sessions (snd (endSession 200000 ''session_a''
     (snd (endSession 100000 ''session_a'' store_session))))) = [Some 200]"
    by code_simp
  have "snd (endSession 200000 ''session_a'' (snd (endSession 100000 ''session_a'' store_session)))
     \<noteq> snd (endSession 100000 ''session_a'' store_session)"
  proof
    assume "snd (endSession 200000 ''session_a''
        (snd (endSession 100000 ''session_a'' store_session)))
      = snd (endSession 100000 ''session_a'' store_session)"
    then have "[Some (200 :: int)] = [Some 100]" using a b by simp
    then show False by simp
  qed
  then show ?thesis using a b by simp
qed

text \<open>
  C6, as the code has it. \<^verbatim>\<open>endSession\<close> is idempotent on the active flag only. The first
  call on a stored session clears its active flag and sets its end time to the second of
  that call; a later call leaves the flag cleared and overwrites the end time with its
  own second, so that the state after both calls is the state the later call alone would
  produce, and it is the state after the first call exactly when both calls read the same
  clock second. Every call succeeds, and no other session is touched.
\<close>

theorem endSession_twice:
  "(\<forall>s. select_session sid d = Some s \<longrightarrow>
      select_session sid (snd (endSession t1 sid d)) =
        Some (s\<lparr>is_active := False, end_time := Some (t1 div 1000)\<rparr>) \<and>
      select_session sid (snd (endSession t2 sid (snd (endSession t1 sid d)))) =
        Some (s\<lparr>is_active := False, end_time := Some (t2 div 1000)\<rparr>) \<and>
      (snd (endSession t2 sid (snd (endSession t1 sid d))) = snd (endSession t1 sid d)
         \<longleftrightarrow> t2 div 1000 = t1 div 1000)) \<and>
   (\<forall>other. other \<noteq> sid \<longrightarrow>
      select_session other (snd (endSession t2 sid (snd (endSession t1 sid d)))) =
        select_session other d) \<and>
   fst (endSession t1 sid d) = Inr () \<and>
   fst (endSession t2 sid (snd (endSession t1 sid d))) = Inr () \<and>
   snd (endSession t2 sid (snd (endSession t1 sid d))) = snd (endSession t2 sid d) \<and>
   map is_active (chat_sessions (snd (endSession t2 sid (snd (endSession t1 sid d))))) =
     map is_active (chat_sessions (snd (endSession t1 sid d))) \<and>
   (t2 div 1000 = t1 div 1000 \<longrightarrow>
      snd (endSession t2 sid (snd (endSession t1 sid d))) = snd (endSession t1 sid d))"
proof (intro conjI allI impI)
  fix s assume s: "select_session sid d = Some s"
  show "select_session sid (snd (endSession t1 sid d)) =
        Some (s\<lparr>is_active := False, end_time := Some (t1 div 1000)\<rparr>)"
    using s by (simp add: endSession_eq select_session_update_session_end)
  show "select_session sid (snd (endSession t2 sid (snd (endSession t1 sid d)))) =
        Some (s\<lparr>is_active := False, end_time := Some (t2 div 1000)\<rparr>)"
    using s by (simp add: endSession_eq update_session_end_twice
        select_session_update_session_end)
  show "snd (endSession t2 sid (snd (endSession t1 sid d))) = snd (endSession t1 sid d)
         \<longleftrightarrow> t2 div 1000 = t1 div 1000"
  proof
    assume "snd (endSession t2 sid (snd (endSession t1 sid d))) = snd (endSession t1 sid d)"
    then have "update_session_end (t2 div 1000) sid d = update_session_end (t1 div 1000) sid d"
      by (simp add: endSession_eq update_session_end_twice)
    then have "select_session sid (update_session_end (t2 div 1000) sid d) =
        select_session sid (update_session_end (t1 div 1000) sid d)"
      by simp
    then have "s\<lparr>is_active := False, end_time := Some (t2 div 1000)\<rparr> =
        s\<lparr>is_active := False, end_time := Some (t1 div 1000)\<rparr>"
      using s by (simp add: select_session_update_session_end)
    then have "end_time (s\<lparr>is_active := False, end_time := Some (t2 div 1000)\<rparr>) =
        end_time (s\<lparr>is_active := False, end_time := Some (t1 div 1000)\<rparr>)"
      by (rule arg_cong)
    then show "t2 div 1000 = t1 div 1000" by simp
  next
    assume "t2 div 1000 = t1 div 1000"
    then show "snd (endSession t2 sid (snd (endSession t1 sid d))) = snd (endSession t1 sid d)"
      by (simp add: endSession_eq update_session_end_twice)
  qed
next
  fix other :: string assume "other \<noteq> sid"
  then show "select_session other (snd (endSession t2 sid (snd (endSession t1 sid d)))) =
        select_session other d"
    by (simp add: endSession_eq select_session_update_session_end_other)
next
  show "fst (endSession t1 sid d) = Inr ()" by (simp add: endSession_eq)
  show "fst (endSession t2 sid (snd (endSession t1 sid d))) = Inr ()"
    by (simp add: endSession_eq)
  show "snd (endSession t2 sid (snd (endSession t1 sid d))) = snd (endSession t2 sid d)"
    by (simp add: endSession_eq update_session_end_twice)
  show "map is_active (chat_sessions (snd (endSession t2 sid (snd (endSession t1 sid d))))) =
     map is_active (chat_sessions (snd (endSession t1 sid d)))"
    by (simp add: endSession_eq update_session_end_twice update_session_end_active)
next
  assume "t2 div 1000 = t1 div 1000"
  then show "snd (endSession t2 sid (snd (endSession t1 sid d))) = snd (endSession t1 sid d)"
    by (simp add: endSession_eq update_session_end_twice)
qed

text \<open>
  The session of \<open>store_session\<close> ended at 100.0 s: ended again at 100.5 s the state is the
  same, ended again at 200 s its end time is 200.
\<close>

theorem endSession_twice_witness:
  "select_session ''session_a'' store_session =
     Some \<lparr>s_id = ''session_a'', s_user_id = ''u1'', s_mentalist_id = ''P'',
           start_time = 1, end_time = None, is_active = True, message_count = 0\<rparr> \<and>
   select_session ''session_a'' (snd (endSession 100000 ''session_a'' store_session)) =
     Some \<lparr>s_id = ''session_a'', s_user_id = ''u1'', s_mentalist_id = ''P'',
           start_time = 1, end_time = Some 100, is_active = False, message_count = 0\<rparr> \<and>
   select_session ''session_a''
       (snd (endSession 200000 ''session_a'' (snd (endSession 100000 ''session_a'' store_session))))
     = Some \<lparr>s_id = ''session_a'', s_user_id = ''u1'', s_mentalist_id = ''P'',
             start_time = 1, end_time = Some 200, is_active = False, message_count = 0\<rparr> \<and>
   (100500 :: int) div 1000 = 100000 div 1000 \<and>
   snd (endSession 100500 ''session_a'' (snd (endSession 100000 ''session_a'' store_session))) =
     snd (endSession 100000 ''session_a'' store_session) \<and>
   ''session_b'' \<noteq> ''session_a'' \<and>
   select_session ''session_b''
       (snd (endSession 200000 ''session_a'' (snd (endSession 100000 ''session_a'' store_session))))
     = None"
proof -
  define s where "s = \<lparr>s_id = ''session_a'', s_user_id = ''u1'', s_mentalist_id = ''P'',
     start_time = 1, end_time = None, is_active = True, message_count = 0\<rparr>"
  have sel: "select_session ''session_a'' store_session = Some s"
    unfolding s_def by code_simp
  have none: "select_session ''session_b'' store_session = None" by code_simp
  have sec: "(100500 :: int) div 1000 = 100000 div 1000" by simp
  have ne: "''session_b'' \<noteq> ''session_a''" by simp
  note far = endSession_twice [of "''session_a''" store_session 100000 200000]
  note near = endSession_twice [of "''session_a''" store_session 100000 100500]
  from far sel
  have a: "select_session ''session_a'' (snd (endSession 100000 ''session_a'' store_session)) =
        Some (s\<lparr>is_active := False, end_time := Some (100000 div 1000)\<rparr>)"
      "select_session ''session_a''
         (snd (endSession 200000 ''session_a''
            (snd (endSession 100000 ''session_a'' store_session)))) =
        Some (s\<lparr>is_active := False, end_time := Some (200000 div 1000)\<rparr>)"
    by blast+
  from far ne none
  have b: "select_session ''session_b''
       (snd (endSession 200000 ''session_a'' (snd (endSession 100000 ''session_a'' store_session))))
     = None"
    by metis
  from near sec
  have c: "snd (endSession 100500 ''session_a''
        (snd (endSession 100000 ''session_a'' store_session))) =
      snd (endSession 100000 ''session_a'' store_session)"
    by blast
  show ?thesis
    unfolding sel a b c by (simp add: s_def)
qed

lemma select_session_increment:
  "select_session sid (increment_message_count sid d) =
     map_option (\<lambda>s. s\<lparr>message_count := message_count s + 1\<rparr>) (select_session sid d)"
  unfolding select_session_def increment_message_count_def
  by (simp add: find_map_same_key [where P = "\<lambda>s. s_id s = sid"])

lemma select_session_Some_known:
  "select_session sid d = Some s \<Longrightarrow> sid \<in> set (map s_id (chat_sessions d))"
  by (auto simp: select_session_def find_Some_iff)

lemma select_session_None_unknown:
  "select_session sid d = None \<Longrightarrow> sid \<notin> set (map s_id (chat_sessions d))"
  by (auto simp: select_session_def find_None_iff)

lemma increment_unknown:
  assumes "sid \<notin> set (map s_id (chat_sessions d))"
  shows "increment_message_count sid d = d"
proof -
  have "map (\<lambda>s. if s_id s = sid then s\<lparr>message_count := message_count s + 1\<rparr> else s)
               (chat_sessions d) = chat_sessions d"
    using assms by (intro map_idI) auto
  then show ?thesis by (simp add: increment_message_count_def)
qed

lemma select_session_increment_other:
  "other \<noteq> sid \<Longrightarrow>
     select_session other (increment_message_count sid d) = select_session other d"
  unfolding select_session_def increment_message_count_def
  by (simp add: find_map_other_key [where P = "\<lambda>s. s_id s = other"])

text \<open>
  C7. The store enforces the foreign key of \<^verbatim>\<open>session_messages\<close>. For a session id that
  is not in the store, \<^verbatim>\<open>saveMessage\<close> fails and writes nothing: the insert of the message
  is rejected, with the foreign-key violation when the message id is new to the table
  (the code has no look-up and no error of its own: the rejection by the store is the
  failure for the unknown session). For an existing session id and a message id new to
  the table, it succeeds, appends exactly one message row, and increments the message
  count of that session by exactly 1, leaving every other session as it was.
\<close>

theorem saveMessage_effect:
  assumes fk: "foreign_keys d"
    and row: "row = \<lparr>msg_id = ''msg_'' @ rnd, msg_session_id = sid, msg_role = rl,
                     msg_content = msg, msg_timestamp = now div 1000\<rparr>"
  shows "(select_session sid d = None \<longrightarrow>
            (\<exists>err. saveMessage rnd now sid rl msg d = (Inl err, d)) \<and>
            (''msg_'' @ rnd \<notin> set (map msg_id (session_messages d)) \<longrightarrow>
               saveMessage rnd now sid rl msg d = (Inl ForeignKeyViolation, d))) \<and>
         (\<forall>s. select_session sid d = Some s \<and>
               ''msg_'' @ rnd \<notin> set (map msg_id (session_messages d)) \<longrightarrow>
            fst (saveMessage rnd now sid rl msg d) = Inr () \<and>
            session_messages (snd (saveMessage rnd now sid rl msg d)) = session_messages d @ [row] \<and>
            select_session sid (snd (saveMessage rnd now sid rl msg d)) =
              Some (s\<lparr>message_count := message_count s + 1\<rparr>) \<and>
            (\<forall>other. other \<noteq> sid \<longrightarrow>
               select_session other (snd (saveMessage rnd now sid rl msg d)) =
                 select_session other d))"
proof (intro conjI allI impI)
  assume none: "select_session sid d = None"
  have unknown: "sid \<notin> set (map s_id (chat_sessions d))"
    using none by (rule select_session_None_unknown)
  show "\<exists>err. saveMessage rnd now sid rl msg d = (Inl err, d)"
    using fk unknown
    by (simp add: saveMessage_def Let_def io_bind_def run_insert_def insert_message_def)
  assume "''msg_'' @ rnd \<notin> set (map msg_id (session_messages d))"
  then show "saveMessage rnd now sid rl msg d = (Inl ForeignKeyViolation, d)"
    using fk unknown
    by (simp add: saveMessage_def Let_def io_bind_def run_insert_def insert_message_def)
next
  fix s assume a: "select_session sid d = Some s \<and>
               ''msg_'' @ rnd \<notin> set (map msg_id (session_messages d))"
  then have s: "select_session sid d = Some s"
    and fresh: "''msg_'' @ rnd \<notin> set (map msg_id (session_messages d))"
    by simp_all
  have known: "sid \<in> set (map s_id (chat_sessions d))"
    using s by (rule select_session_Some_known)
  have run: "saveMessage rnd now sid rl msg d =
      (Inr (), increment_message_count sid (d\<lparr>session_messages := session_messages d @ [row]\<rparr>))"
    using fresh known
    by (simp add: saveMessage_def Let_def io_bind_def run_insert_def insert_message_def exec_def row)
  show "fst (saveMessage rnd now sid rl msg d) = Inr ()" by (simp add: run)
  show "session_messages (snd (saveMessage rnd now sid rl msg d)) = session_messages d @ [row]"
    by (simp add: run increment_message_count_def)
  have "select_session sid (d\<lparr>session_messages := session_messages d @ [row]\<rparr>) = Some s"
    using s by (simp add: select_session_def)
  then show "select_session sid (snd (saveMessage rnd now sid rl msg d)) =
              Some (s\<lparr>message_count := message_count s + 1\<rparr>)"
    by (simp add: run select_session_increment)
  fix other :: string assume "other \<noteq> sid"
  then have "select_session other (snd (saveMessage rnd now sid rl msg d)) =
      select_session other (d\<lparr>session_messages := session_messages d @ [row]\<rparr>)"
    by (simp add: run select_session_increment_other)
  then show "select_session other (snd (saveMessage rnd now sid rl msg d)) =
      select_session other d"
    by (simp add: select_session_def)
qed

text \<open>
  On \<open>store_session\<close>: a message for the stored session \<open>session_a\<close> is appended and
  counted; a message for the unknown session \<open>ghost\<close> is rejected and the store is as
  before.
\<close>

theorem saveMessage_effect_witness:
  "foreign_keys store_session \<and>
   fst (saveMessage ''1'' 2000 ''session_a'' ''user'' ''hello'' store_session) = Inr () \<and>
   session_messages (snd (saveMessage ''1'' 2000 ''session_a'' ''user'' ''hello'' store_session)) =
     [\<lparr>msg_id = ''msg_1'', msg_session_id = ''session_a'', msg_role = ''user'',
       msg_content = ''hello'', msg_timestamp = 2\<rparr>] \<and>
   map_option message_count (select_session ''session_a''
     (snd (saveMessage ''1'' 2000 ''session_a'' ''user'' ''hello'' store_session))) = Some 1 \<and>
   select_session ''ghost''
     (snd (saveMessage ''1'' 2000 ''session_a'' ''user'' ''hello'' store_session)) = None \<and>
   select_session ''ghost'' store_session = None \<and>
   saveMessage ''1'' 2000 ''ghost'' ''user'' ''hello'' store_session =
     (Inl ForeignKeyViolation, store_session)"
proof -
  define s where "s = \<lparr>s_id = ''session_a'', s_user_id = ''u1'', s_mentalist_id = ''P'',
     start_time = 1, end_time = None, is_active = True, message_count = 0\<rparr>"
  have sel: "select_session ''session_a'' store_session = Some s"
    unfolding s_def by code_simp
  have fk: "foreign_keys store_session" by code_simp
  have nomsg: "session_messages store_session = []" by code_simp
  have fresh: "''msg_'' @ ''1'' \<notin> set (map msg_id (session_messages store_session))"
    by (simp add: nomsg)
  have ghost: "select_session ''ghost'' store_session = None" by code_simp
  have ne: "''ghost'' \<noteq> ''session_a''" by simp
  note known = saveMessage_effect [where sid = "''session_a''" and rl = "''user''"
      and now = 2000 and msg = "''hello''" and rnd = "''1''", OF fk refl]
  note unknown = saveMessage_effect [where sid = "''ghost''" and rl = "''user''"
      and now = 2000 and msg = "''hello''" and rnd = "''1''", OF fk refl]
  from known sel fresh
  have a: "fst (saveMessage ''1'' 2000 ''session_a'' ''user'' ''hello'' store_session) = Inr ()"
    "session_messages (snd (saveMessage ''1'' 2000 ''session_a'' ''user'' ''hello'' store_session))
       = session_messages store_session @
         [\<lparr>msg_id = ''msg_'' @ ''1'', msg_session_id = ''session_a'', msg_role = ''user'',
           msg_content = ''hello'', msg_timestamp = 2000 div 1000\<rparr>]"
    "select_session ''session_a''
       (snd (saveMessage ''1'' 2000 ''session_a'' ''user'' ''hello'' store_session)) =
       Some (s\<lparr>message_count := message_count s + 1\<rparr>)"
    by blast+
  from known sel fresh ne ghost
  have b: "select_session ''ghost''
     (snd (saveMessage ''1'' 2000 ''session_a'' ''user'' ''hello'' store_session)) = None"
    by metis
  from unknown ghost fresh
  have c: "saveMessage ''1'' 2000 ''ghost'' ''user'' ''hello'' store_session =
      (Inl ForeignKeyViolation, store_session)"
    by blast
  show ?thesis unfolding a b c ghost using fk nomsg by (simp add: s_def)
qed

section \<open>The top techniques\<close>

lemma first_seen_snoc:
  "first_seen (xs @ [x]) = (if x \<in> set xs then first_seen xs else first_seen xs @ [x])"
  by (simp add: first_seen_def)

lemma set_first_seen: "set (first_seen xs) = set xs"
  by (simp add: first_seen_def)

lemma set_enumeration_order: "set (enumeration_order ks) = set ks"
  by (auto simp: enumeration_order_def)

lemma map_of_keyed:
  "map_of (map (\<lambda>t. (t, g t)) ks) k = (if k \<in> set ks then Some (g k) else None)"
  by (induction ks) auto

lemma group_stats_snoc:
  "group_stats (rows @ [e]) t =
     (if t = trickPerformed e
      then (group_stats rows t)
             \<lparr>attempts := attempts (group_stats rows t) + 1,
              successes := (if userReaction e = Amazed \<or> userReaction e = Engaged
                            then successes (group_stats rows t) + 1
                            else successes (group_stats rows t)),
              contexts := (if e_context e \<noteq> [] then contexts (group_stats rows t) @ [e_context e]
                           else contexts (group_stats rows t)),
              insights := (if lessonLearned e \<noteq> []
                           then insights (group_stats rows t) @ [lessonLearned e]
                           else insights (group_stats rows t))\<rparr>
      else group_stats rows t)"
  by (auto simp: group_stats_def Let_def)

lemma group_stats_unseen:
  "t \<notin> trickPerformed ` set rows \<Longrightarrow>
     group_stats rows t = \<lparr>attempts = 0, successes = 0, contexts = [], insights = []\<rparr>"
  by (auto simp: group_stats_def Let_def filter_empty_conv)

text \<open>The loop builds one entry per technique, in order of first appearance.\<close>

lemma trickStats_groups:
  "foldl record_attempt [] rows =
     map (\<lambda>t. (t, group_stats rows t)) (first_seen (map trickPerformed rows))"
proof (induction rows rule: rev_induct)
  case Nil
  then show ?case by (simp add: first_seen_def)
next
  case (snoc e rows)
  show ?case
  proof (cases "trickPerformed e \<in> trickPerformed ` set rows")
    case True
    then show ?thesis
      using snoc.IH
      by (simp add: record_attempt_def map_of_keyed first_seen_snoc group_stats_snoc Let_def
          set_first_seen)
  next
    case False
    then show ?thesis
      using snoc.IH group_stats_unseen [OF False]
      by (auto simp: record_attempt_def map_of_keyed first_seen_snoc group_stats_snoc Let_def
          set_first_seen)
  qed
qed

lemma insort_key_map:
  "insort_key f (h x) (map h ys) = map h (insort_key (\<lambda>y. f (h y)) x ys)"
  by (induction ys) auto

lemma sort_key_map:
  "sort_key f (map h xs) = map h (sort_key (\<lambda>y. f (h y)) xs)"
  by (induction xs) (auto simp: insort_key_map)

lemma object_entries_keyed:
  "object_entries (map (\<lambda>t. (t, g t)) ks) = map (\<lambda>t. (t, g t)) (enumeration_order ks)"
  by (simp add: object_entries_def enumeration_order_def filter_map comp_def sort_key_map)

lemma analyzeSuccessfulTricks_groups:
  "analyzeSuccessfulTricks f rows =
     take 5 (sort_key (\<lambda>p. - int (successRate p))
       (map (technique_group f rows)
          (enumeration_order (first_seen (map trickPerformed rows)))))"
  by (simp add: analyzeSuccessfulTricks_def Let_def trickStats_groups object_entries_keyed
      technique_group_def [abs_def] comp_def)

lemma sorted_take_ge_drop:
  assumes "sorted (map f xs)" and "p \<in> set (take n xs)" and "q \<in> set (drop n xs)"
  shows "f p \<le> f q"
proof -
  have "sorted (map f (take n xs) @ map f (drop n xs))"
    using assms(1) by (simp flip: map_append)
  then show ?thesis using assms(2,3) by (auto simp: sorted_append)
qed

lemma tie_window_order:
  "enumeration_order (first_seen (map trickPerformed tie_window)) =
     [''levitation'', ''card_force'']"
  by code_simp

lemma tie_window_groups:
  "map (\<lambda>p. (name p, successRate p, timesPerformed p))
     (map (technique_group f tie_window) [''levitation'', ''card_force'']) =
   [(''levitation'', 1000, 1), (''card_force'', 1000, 2)]"
  by (simp add: technique_group_def group_stats_def tie_window_def stored_outcome_def
      toFixed1_all_successes)

lemma tie_window_ranked:
  "analyzeSuccessfulTricks f tie_window =
     map (technique_group f tie_window) [''levitation'', ''card_force'']"
proof -
  have "successRate (technique_group f tie_window ''levitation'') = 1000"
    and "successRate (technique_group f tie_window ''card_force'') = 1000"
    using tie_window_groups [of f] by simp_all
  then show ?thesis
    by (simp add: analyzeSuccessfulTricks_groups tie_window_order)
qed

text \<open>
  On \<open>tie_window\<close> both techniques score 100.0; \<open>card_force\<close> has two attempts,
  \<open>levitation\<close> one, and \<open>levitation\<close> is ranked first: the tie is not broken by the
  attempt count.
\<close>

theorem analyzeSuccessfulTricks_tie_keeps_window_order:
  "map (\<lambda>p. (name p, successRate p, timesPerformed p))
       (analyzeSuccessfulTricks (\<lambda>cs. []) tie_window) =
     [(''levitation'', 1000, 1), (''card_force'', 1000, 2)] \<and>
   \<not> sorted_wrt (\<lambda>p q. successRate p > successRate q \<or>
                   (successRate p = successRate q \<and> timesPerformed p \<ge> timesPerformed q))
        (analyzeSuccessfulTricks (\<lambda>cs. []) tie_window)"
  using tie_window_groups [of "\<lambda>cs. []"] by (simp add: tie_window_ranked)

text \<open>
  C8, as the code has it. The top-techniques list groups the fetched window by technique
  and scores each group with the percentage of amazed or engaged reactions among its
  attempts, computed in doubles as \<^verbatim>\<open>(successes / attempts) * 100\<close> and rounded to one
  decimal by \<^verbatim>\<open>toFixed(1)\<close> (for 23 successes of 80 the double is just below 28.75 and
  the score is 28.7: \<open>toFixed1_23_80\<close>). The groups are ranked by that score, descending, by a
  stable sort: groups with the same score keep the order in which the grouping object
  enumerates them (names that are array indices first, in numeric order, then the other
  names in order of first appearance in the window), and the attempt count has no part in
  the order. At most the first 5 groups are kept, and no group left out scores higher
  than a group kept. This is for technique names that are not inherited property names.
\<close>

theorem analyzeSuccessfulTricks_ranking:
  assumes ordinary: "\<forall>e\<in>set rows. trickPerformed e \<notin> set inherited_keys"
    and groups: "groups = map (technique_group f rows)
                   (enumeration_order (first_seen (map trickPerformed rows)))"
    and ranked: "ranked = analyzeSuccessfulTricks f rows"
  shows "ranked = take 5 (sort_key (\<lambda>p. - int (successRate p)) groups) \<and>
         length ranked \<le> 5 \<and>
         sorted_wrt (\<lambda>p q. successRate p \<ge> successRate q) ranked \<and>
         (\<forall>k. prefix (filter (\<lambda>p. successRate p = k) ranked)
                     (filter (\<lambda>p. successRate p = k) groups)) \<and>
         (\<forall>p\<in>set ranked. \<forall>q\<in>set groups - set ranked. successRate q \<le> successRate p) \<and>
         (\<forall>p\<in>set ranked.
            timesPerformed p = length (filter (\<lambda>e. trickPerformed e = name p) rows) \<and>
            timesPerformed p > 0 \<and>
            successRate p =
              toFixed1 (length (filter (\<lambda>e. trickPerformed e = name p \<and>
                                   (userReaction e = Amazed \<or> userReaction e = Engaged)) rows))
                       (timesPerformed p))"
proof -
  let ?key = "\<lambda>p. - int (successRate p)"
  let ?s = "sort_key ?key groups"
  have eq: "ranked = take 5 ?s"
    by (simp add: ranked groups analyzeSuccessfulTricks_groups)
  have len: "length ranked \<le> 5" by (simp add: eq)
  have srt: "sorted (map ?key ?s)" by (rule sorted_sort_key)
  have "sorted (map ?key ranked)"
    unfolding eq using srt by (simp add: take_map [symmetric] sorted_wrt_take)
  then have desc: "sorted_wrt (\<lambda>p q. successRate p \<ge> successRate q) ranked"
    by (simp add: sorted_map sorted_wrt_iff_nth_less)
  have stable: "prefix (filter (\<lambda>p. successRate p = k) ranked)
                     (filter (\<lambda>p. successRate p = k) groups)" for k
  proof -
    have "filter (\<lambda>p. ?key p = - int k) ?s = filter (\<lambda>p. ?key p = - int k) groups"
      by (rule sort_key_stable)
    then have "filter (\<lambda>p. successRate p = k) ?s = filter (\<lambda>p. successRate p = k) groups"
      by simp
    moreover have "prefix (filter (\<lambda>p. successRate p = k) (take 5 ?s))
                          (filter (\<lambda>p. successRate p = k) ?s)"
      by (intro filter_mono_prefix take_is_prefix)
    ultimately show ?thesis by (simp add: eq)
  qed
  have best: "successRate q \<le> successRate p"
    if p: "p \<in> set ranked" and q: "q \<in> set groups - set ranked" for p q
  proof -
    have "q \<in> set ?s" using q by simp
    then have "q \<in> set (take 5 ?s) \<union> set (drop 5 ?s)"
      by (metis append_take_drop_id set_append)
    then have "q \<in> set (drop 5 ?s)" using q eq by simp
    then have "?key p \<le> ?key q"
      using sorted_take_ge_drop [OF srt, of p 5 q] p eq by simp
    then show ?thesis by simp
  qed
  have counts: "timesPerformed p = length (filter (\<lambda>e. trickPerformed e = name p) rows) \<and>
            timesPerformed p > 0 \<and>
            successRate p =
              toFixed1 (length (filter (\<lambda>e. trickPerformed e = name p \<and>
                                   (userReaction e = Amazed \<or> userReaction e = Engaged)) rows))
                       (timesPerformed p)" if "p \<in> set ranked" for p
  proof -
    have "p \<in> set groups" using that eq by (auto dest: in_set_takeD)
    then obtain t where t: "t \<in> trickPerformed ` set rows" and p: "p = technique_group f rows t"
      by (auto simp: groups set_enumeration_order set_first_seen)
    have "filter (\<lambda>e. trickPerformed e = t) rows \<noteq> []"
      using t by (auto simp: filter_empty_conv)
    then show ?thesis
      by (simp add: p technique_group_def group_stats_def Let_def)
  qed
  show ?thesis using eq len desc stable best counts by blast
qed

theorem analyzeSuccessfulTricks_ranking_witness:
  "analyzeSuccessfulTricks (\<lambda>cs. []) tie_window =
     take 5 (sort_key (\<lambda>p. - int (successRate p))
       (map (technique_group (\<lambda>cs. []) tie_window) [''levitation'', ''card_force''])) \<and>
   length (analyzeSuccessfulTricks (\<lambda>cs. []) tie_window) \<le> 5 \<and>
   sorted_wrt (\<lambda>p q. successRate p \<ge> successRate q)
     (analyzeSuccessfulTricks (\<lambda>cs. []) tie_window)"
proof -
  have ordinary: "\<forall>e\<in>set tie_window. trickPerformed e \<notin> set inherited_keys"
    by (simp add: tie_window_def stored_outcome_def inherited_keys_def)
  note order = tie_window_order
  note r = analyzeSuccessfulTricks_ranking [OF ordinary refl refl, of "\<lambda>cs. []"]
  have c1: "analyzeSuccessfulTricks (\<lambda>cs. []) tie_window =
     take 5 (sort_key (\<lambda>p. - int (successRate p))
       (map (technique_group (\<lambda>cs. []) tie_window) [''levitation'', ''card_force'']))"
    using r [THEN conjunct1] unfolding order .
  have c2: "length (analyzeSuccessfulTricks (\<lambda>cs. []) tie_window) \<le> 5"
    by (rule r [THEN conjunct2, THEN conjunct1])
  have c3: "sorted_wrt (\<lambda>p q. successRate p \<ge> successRate q)
     (analyzeSuccessfulTricks (\<lambda>cs. []) tie_window)"
    by (rule r [THEN conjunct2, THEN conjunct2, THEN conjunct1])
  show ?thesis by (rule conjI [OF c1 conjI [OF c2 c3]])
qed

end
